theory Spec2Isabelle
  imports Complex_Main
begin

section \<open>Token usage chart: layout, ticks, hover and window selection (web/app.js)\<close>

text \<open>
  JavaScript numbers are modelled as real numbers: the arithmetic of the layout is
  the exact one, without the rounding of IEEE doubles, and every number is finite
  (so \<^verbatim>\<open>Number.isFinite\<close> holds of each of them). Array lengths and indices are
  natural numbers. A field that may be missing, \<^verbatim>\<open>null\<close> or \<^verbatim>\<open>undefined\<close> is an option.
\<close>

subsection \<open>Buckets\<close>

record bucket =
  bucket_start :: string
  tokens :: "real option"

text \<open>\<^verbatim>\<open>entry.tokens || 0\<close>: a missing or zero count reads as 0.\<close>

definition entryTokens :: "bucket \<Rightarrow> real" where
  "entryTokens entry = (case tokens entry of None \<Rightarrow> 0 | Some t \<Rightarrow> if t = 0 then 0 else t)"

subsection \<open>Bar packing (drawChart, the block guarded by entries.length > 1)\<close>

definition minBarWidth :: real where
  "minBarWidth = 3"

definition targetWidth :: "real \<Rightarrow> nat \<Rightarrow> real" where
  "targetWidth chartWidth n = (chartWidth * 0.7) / real n"

text \<open>The first assignments to \<^verbatim>\<open>barWidth\<close> and \<^verbatim>\<open>barGap\<close>, before any clamping.\<close>

definition provisionalWidth :: "real \<Rightarrow> nat \<Rightarrow> real" where
  "provisionalWidth chartWidth n = max minBarWidth (targetWidth chartWidth n)"

definition provisionalGap :: "real \<Rightarrow> nat \<Rightarrow> real" where
  "provisionalGap chartWidth n =
     (chartWidth - provisionalWidth chartWidth n * real n) / real (n - 1)"

text \<open>The pair (barWidth, barGap) that drawChart ends up with for n entries.\<close>

definition barPacking :: "real \<Rightarrow> nat \<Rightarrow> real \<times> real" where
  "barPacking chartWidth n =
     (if n > 1 then
        (let barWidth = provisionalWidth chartWidth n;
             barGap = provisionalGap chartWidth n
         in if barGap < 1 then
              (max minBarWidth ((chartWidth - 1 * real (n - 1)) / real n), 1)
            else if barGap > 10 then
              ((chartWidth - 10 * real (n - 1)) / real n, 10)
            else (barWidth, barGap))
      else (chartWidth, 10))"

definition barWidthOf :: "real \<Rightarrow> nat \<Rightarrow> real" where
  "barWidthOf chartWidth n = fst (barPacking chartWidth n)"

definition barGapOf :: "real \<Rightarrow> nat \<Rightarrow> real" where
  "barGapOf chartWidth n = snd (barPacking chartWidth n)"

text \<open>
  The packing as the specification words it: a target width of 0.7 W/N floored at 3, a
  provisional gap (W - width N)/(N - 1), the gap clamped to 1 with the width recomputed
  as max(3, (W - gap (N - 1))/N) when below 1, and clamped to 10 with the width
  recomputed as (W - gap (N - 1))/N when above 10.
\<close>

definition spec_barPacking :: "real \<Rightarrow> nat \<Rightarrow> real \<times> real" where
  "spec_barPacking W N =
     (let width = max 3 (0.7 * W / real N);
          gap = (W - width * real N) / (real N - 1)
      in if gap < 1 then (max 3 ((W - 1 * (real N - 1)) / real N), 1)
         else if gap > 10 then ((W - 10 * (real N - 1)) / real N, 10)
         else (width, gap))"

definition totalSpan :: "real \<Rightarrow> nat \<Rightarrow> real" where
  "totalSpan chartWidth n =
     barWidthOf chartWidth n * real n + barGapOf chartWidth n * real (n - 1)"

subsection \<open>Value scaling (drawChart: maxTokens, maxValue, heightPx)\<close>

text \<open>\<^verbatim>\<open>Math.max(0, ...entries.map((entry) => entry.tokens || 0))\<close>.\<close>

definition maxTokensOf :: "bucket list \<Rightarrow> real" where
  "maxTokensOf entries = fold max (map entryTokens entries) 0"

definition maxValueOf :: "bucket list \<Rightarrow> real" where
  "maxValueOf entries = (if maxTokensOf entries = 0 then 1 else maxTokensOf entries)"

definition heightPx :: "bucket list \<Rightarrow> real \<Rightarrow> bucket \<Rightarrow> real" where
  "heightPx entries chartHeight entry = (entryTokens entry / maxValueOf entries) * chartHeight"

definition labelEvery :: "nat \<Rightarrow> nat" where
  "labelEvery n = (if n > 18 then nat \<lceil>real n / 12\<rceil> else 1)"

subsection \<open>Gridline ticks (getLinearTicks)\<close>

text \<open>
  The step of the 1-2-5 rule. \<^verbatim>\<open>roughStep || 1\<close> replaces a zero rough step by 1 before
  the logarithm is taken; \<^verbatim>\<open>Math.pow(10, Math.floor(Math.log10(...)))\<close> is the power of
  ten with the floored logarithm as exponent.
\<close>

definition tickMagnitude :: "real \<Rightarrow> real" where
  "tickMagnitude roughStep =
     10 powr of_int \<lfloor>log 10 (if roughStep = 0 then 1 else roughStep)\<rfloor>"

definition tickStep :: "real \<Rightarrow> real" where
  "tickStep maxTokens =
     (let roughStep = maxTokens / 4;
          magnitude = tickMagnitude roughStep;
          normalized = roughStep / magnitude
      in if normalized \<ge> 5 then 5 * magnitude
         else if normalized \<ge> 2 then 2 * magnitude
         else magnitude)"

text \<open>
  The loop \<^verbatim>\<open>for (let value = 0; value <= maxTokens + step * 0.5; value += step)
  ticks.push(value)\<close>. It does not return when the step is not positive and the bound
  is not negative, which is the result \<open>None\<close>.
\<close>

partial_function (option) pushTicks ::
  "real \<Rightarrow> real \<Rightarrow> real \<Rightarrow> real list \<Rightarrow> real list option" where
  "pushTicks value maxTokens step ticks =
     (if value \<le> maxTokens + step * 0.5
      then pushTicks (value + step) maxTokens step (ticks @ [value])
      else Some ticks)"

text \<open>The guard \<^verbatim>\<open>!Number.isFinite(maxTokens)\<close> is false of every real number.\<close>

definition getLinearTicks :: "real \<Rightarrow> real list option" where
  "getLinearTicks maxTokens =
     (if maxTokens \<le> 0 then Some [0]
      else pushTicks 0 maxTokens (tickStep maxTokens) [])"

text \<open>
  The tick list as the specification words it: 0, step, 2 step, ... up to the largest
  multiple of the step that is at most maxTokens + step/2.
\<close>

definition spec_ticks :: "real \<Rightarrow> real \<Rightarrow> real list" where
  "spec_ticks maxTokens step =
     map (\<lambda>i. real i * step) [0 ..< Suc (nat \<lfloor>(maxTokens + step / 2) / step\<rfloor>)]"

subsection \<open>Datasets, windows and the page\<close>

record dataset =
  window_start :: "string option"
  window_end :: "string option"
  data_granularity :: "string option"
  token_buckets :: "bucket list option"
  percent_any_instance :: "real option"
  cost_total_usd :: "real option"
  cost_partial :: bool

text \<open>The window table: key and label of each button.\<close>

definition WINDOWS :: "(string \<times> string) list" where
  "WINDOWS =
     [(''1d'', ''1 day''), (''1w'', ''1 week''), (''1m'', ''1 month''),
      (''3m'', ''3 months''), (''1y'', ''1 year''), (''all'', ''All time''),
      (''custom'', ''Custom'')]"

text \<open>\<^verbatim>\<open>WINDOWS.find((w) => w.key === key)?.label ?? key\<close>.\<close>

definition windowLabelOf :: "string \<Rightarrow> string" where
  "windowLabelOf k = (case List.find (\<lambda>w. fst w = k) WINDOWS of None \<Rightarrow> k | Some w \<Rightarrow> snd w)"

text \<open>
  Text shown in an element. The formatting helpers (\<^verbatim>\<open>toFixed\<close>, the locale's date
  and time formats) are kept symbolic: a formatted value is the constructor applied to
  what is formatted.
\<close>

datatype content =
    Str string
  | PctText real
  | CostText bool real
  | RangeText string string

datatype label =
    TokensLabel real
  | BucketLabel bucket string

text \<open>
  What drawChart puts on the canvas, in order. The canvas is cleared in its own
  coordinates; gridlines, bars and labels are drawn after the translation by the left and
  top padding. Colours, fonts and the device pixel ratio are left out.
\<close>

datatype draw =
    ClearRect real real real real
  | StrokeLine real real real real
  | FillRect real real real real
  | FillText label real real

record barRect =
  bar_index :: nat
  bar_x :: real
  bar_y :: real
  bar_width :: real
  bar_height :: real

datatype request =
    FetchWindow string
  | FetchRange string string

text \<open>
  The \<^verbatim>\<open>state\<close> object (its fields \<open>selected\<close> to \<open>hoverIndex\<close>; \<^verbatim>\<open>anim\<close> is never
  used), then what the page shows: the window buttons with their \<^verbatim>\<open>active\<close> class, the
  text of the header, stat and chart title elements, the visibility classes of the range
  box, the two date inputs, the bounding rectangle of the canvas and the frame last
  drawn on it. \<open>requests\<close> logs every call of fetchUptime and \<open>redraws\<close> counts the
  calls of drawChart.
\<close>

record state =
  selected :: string
  cache :: "string \<rightharpoonup> dataset"
  chartData :: "bucket list"
  barRects :: "barRect list"
  granularity :: string
  hoverIndex :: "nat option"
  buttons :: "(string \<times> bool) list"
  windowLabel :: content
  windowRange :: content
  uptimePct :: content
  costUsd :: content
  chartTitle :: content
  chartSubtitle :: content
  rangeBoxVisible :: bool
  controlsShowRange :: bool
  startInput :: string
  endInput :: string
  chartRect :: "real \<times> real"
  frame :: "draw list"
  requests :: "request list"
  redraws :: nat

subsection \<open>Header, stats and chart title\<close>

text \<open>\<^verbatim>\<open>v || d\<close> on a string field: a missing or empty string gives the default.\<close>

definition strOr :: "string option \<Rightarrow> string \<Rightarrow> string" where
  "strOr v d = (case v of None \<Rightarrow> d | Some t \<Rightarrow> if t = [] then d else t)"

definition formatPct :: "real option \<Rightarrow> content" where
  "formatPct v = (case v of None \<Rightarrow> Str ''--'' | Some p \<Rightarrow> PctText p)"

definition setActiveButton :: "string \<Rightarrow> state \<Rightarrow> state" where
  "setActiveButton k s = s\<lparr>buttons := map (\<lambda>btn. (fst btn, fst btn = k)) (buttons s)\<rparr>"

definition setRangeBoxVisible :: "bool \<Rightarrow> state \<Rightarrow> state" where
  "setRangeBoxVisible visible s = s\<lparr>rangeBoxVisible := visible, controlsShowRange := visible\<rparr>"

definition updateHeader :: "dataset option \<Rightarrow> string \<Rightarrow> state \<Rightarrow> state" where
  "updateHeader d lab s =
     (let s1 = s\<lparr>windowLabel := Str lab\<rparr>
      in case d of
           None \<Rightarrow> s1\<lparr>windowRange := Str ''Pick a range''\<rparr>
         | Some dat \<Rightarrow>
             (case (window_start dat, window_end dat) of
                (Some a, Some b) \<Rightarrow>
                  if a \<noteq> [] \<and> b \<noteq> [] then s1\<lparr>windowRange := RangeText a b\<rparr>
                  else s1\<lparr>windowRange := Str ''Pick a range''\<rparr>
              | _ \<Rightarrow> s1\<lparr>windowRange := Str ''Pick a range''\<rparr>))"

definition updateChartMeta :: "dataset \<Rightarrow> state \<Rightarrow> state" where
  "updateChartMeta dat s =
     s\<lparr>chartTitle := Str (''Tokens by '' @ strOr (data_granularity dat) ''day''),
       chartSubtitle := Str ''Tokens per bucket.''\<rparr>"

definition updateStats :: "dataset \<Rightarrow> state \<Rightarrow> state" where
  "updateStats dat s =
     (let s1 = s\<lparr>uptimePct := formatPct (percent_any_instance dat)\<rparr>
      in case cost_total_usd dat of
           Some v \<Rightarrow> s1\<lparr>costUsd := CostText (cost_partial dat) v\<rparr>
         | None \<Rightarrow> s1\<lparr>costUsd := Str ''--''\<rparr>)"

subsection \<open>drawChart\<close>

definition chartWidthOf :: "state \<Rightarrow> real" where
  "chartWidthOf s = fst (chartRect s) - 56 - 20"

definition chartHeightOf :: "state \<Rightarrow> real" where
  "chartHeightOf s = snd (chartRect s) - 24 - 34"

text \<open>The gridline and the value label of one tick.\<close>

definition drawTick :: "real \<Rightarrow> real \<Rightarrow> real \<Rightarrow> real \<Rightarrow> draw list" where
  "drawTick chartWidth chartHeight maxValue v =
     (let y = chartHeight - (v / maxValue) * chartHeight
      in [StrokeLine 0 y chartWidth y, FillText (TokensLabel v) (- 8) y])"

text \<open>The body of \<^verbatim>\<open>entries.forEach((entry, index) => ...)\<close>: what is drawn for one bar.\<close>

definition drawBar :: "state \<Rightarrow> nat \<times> bucket \<Rightarrow> draw list" where
  "drawBar s ie =
     (let index = fst ie; entry = snd ie;
          entries = chartData s;
          chartHeight = chartHeightOf s;
          barWidth = barWidthOf (chartWidthOf s) (length entries);
          barGap = barGapOf (chartWidthOf s) (length entries);
          x = real index * (barWidth + barGap);
          h = heightPx entries chartHeight entry;
          y = chartHeight - h
      in [FillRect x y barWidth h]
         @ (if index mod labelEvery (length entries) = 0
            then [FillText (BucketLabel entry (granularity s)) (x + barWidth / 2) (chartHeight + 18)]
            else [])
         @ (if hoverIndex s = Some index
            then [FillText (TokensLabel (entryTokens entry)) (x + barWidth / 2) (y - 6)]
            else []))"

text \<open>The rectangle pushed to \<^verbatim>\<open>state.barRects\<close> for one bar, in canvas coordinates.\<close>

definition barRectOf :: "state \<Rightarrow> nat \<times> bucket \<Rightarrow> barRect" where
  "barRectOf s ie =
     (let index = fst ie; entry = snd ie;
          entries = chartData s;
          chartHeight = chartHeightOf s;
          barWidth = barWidthOf (chartWidthOf s) (length entries);
          barGap = barGapOf (chartWidthOf s) (length entries);
          x = real index * (barWidth + barGap);
          h = heightPx entries chartHeight entry;
          y = chartHeight - h
      in \<lparr>bar_index = index, bar_x = 56 + x, bar_y = 24 + y,
          bar_width = barWidth, bar_height = h\<rparr>)"

definition drawChart :: "state \<Rightarrow> state option" where
  "drawChart s =
     (let entries = chartData s;
          indexed = zip [0 ..< length entries] entries
      in case getLinearTicks (maxTokensOf entries) of
           None \<Rightarrow> None
         | Some ticks \<Rightarrow>
             Some (s\<lparr>barRects := map (barRectOf s) indexed,
                     frame := [ClearRect 0 0 (fst (chartRect s)) (snd (chartRect s))]
                              @ concat (map (drawTick (chartWidthOf s) (chartHeightOf s)
                                               (maxValueOf entries)) ticks)
                              @ concat (map (drawBar s) indexed),
                     redraws := Suc (redraws s)\<rparr>))"

subsection \<open>Window selection and the custom range\<close>

text \<open>
  fetchUptime only issues the request here; the response arrives later, as a call of
  the handler given to \<^verbatim>\<open>.then\<close> or of the one given to \<^verbatim>\<open>.catch\<close>.
\<close>

definition fetchUptime :: "request \<Rightarrow> state \<Rightarrow> state" where
  "fetchUptime r s = s\<lparr>requests := requests s @ [r]\<rparr>"

definition bucketsOf :: "dataset \<Rightarrow> bucket list" where
  "bucketsOf dat = (case token_buckets dat of None \<Rightarrow> [] | Some bs \<Rightarrow> bs)"

text \<open>The statements shared by the cached branch and both \<^verbatim>\<open>.then\<close> handlers.\<close>

definition showData :: "dataset \<Rightarrow> string \<Rightarrow> state \<Rightarrow> state" where
  "showData dat lab s =
     (let s1 = updateHeader (Some dat) lab s;
          s2 = updateStats dat s1;
          s3 = updateChartMeta dat s2
      in s3\<lparr>chartData := bucketsOf dat,
            granularity := strOr (data_granularity dat) ''day''\<rparr>)"

definition setSelectedWindow :: "string \<Rightarrow> state \<Rightarrow> state option" where
  "setSelectedWindow k s =
     (let s1 = setActiveButton k (s\<lparr>selected := k\<rparr>);
          lab = windowLabelOf k;
          cached = cache s1 k;
          s2 = setRangeBoxVisible (k = ''custom'') s1
      in case cached of
           None \<Rightarrow>
             if k = ''custom'' then
               drawChart ((updateHeader None lab s2)
                            \<lparr>uptimePct := Str ''--'', costUsd := Str ''--'', chartData := []\<rparr>)
             else Some (fetchUptime (FetchWindow k) s2)
         | Some dat \<Rightarrow> drawChart (showData dat lab s2))"

text \<open>The \<^verbatim>\<open>.then\<close> handler of setSelectedWindow(key), run when the response arrives.\<close>

definition windowFetched :: "string \<Rightarrow> dataset \<Rightarrow> state \<Rightarrow> state option" where
  "windowFetched k dat s =
     drawChart (showData dat (windowLabelOf k) (s\<lparr>cache := (cache s)(k \<mapsto> dat)\<rparr>))"

text \<open>The \<^verbatim>\<open>.catch\<close> handler, the same in setSelectedWindow and applyCustomRange.\<close>

definition fetchFailed :: "string \<Rightarrow> state \<Rightarrow> state" where
  "fetchFailed message s = s\<lparr>uptimePct := Str (''Error: '' @ message)\<rparr>"

definition applyCustomRange :: "state \<Rightarrow> state" where
  "applyCustomRange s =
     (if startInput s = [] \<or> endInput s = [] then s
      else fetchUptime (FetchRange (startInput s) (endInput s)) s)"

text \<open>The \<^verbatim>\<open>.then\<close> handler of applyCustomRange.\<close>

definition customFetched :: "dataset \<Rightarrow> state \<Rightarrow> state option" where
  "customFetched dat s =
     (let s1 = s\<lparr>cache := (cache s)(''custom'' \<mapsto> dat), selected := ''custom''\<rparr>;
          s2 = setActiveButton ''custom'' s1
      in case drawChart (showData dat ''Custom'' s2) of
           None \<Rightarrow> None
         | Some s3 \<Rightarrow> Some (setRangeBoxVisible True s3))"

text \<open>
  A response settles the request that was issued: a rejection runs the \<^verbatim>\<open>.catch\<close>
  handler with the error's message, a Dataset the \<^verbatim>\<open>.then\<close> handler. On a Dataset
  of this type the \<^verbatim>\<open>.then\<close> handler throws nothing, so the \<^verbatim>\<open>.catch\<close> handler
  chained after it runs for rejections only.
\<close>

definition settle :: "request \<Rightarrow> string + dataset \<Rightarrow> state \<Rightarrow> state option" where
  "settle r outcome s =
     (case outcome of
        Inl message \<Rightarrow> Some (fetchFailed message s)
      | Inr dat \<Rightarrow>
          (case r of
             FetchWindow k \<Rightarrow> windowFetched k dat s
           | FetchRange a b \<Rightarrow> customFetched dat s))"

subsection \<open>Pointer events (setupChartInteraction)\<close>

definition barContains :: "barRect \<Rightarrow> real \<Rightarrow> real \<Rightarrow> bool" where
  "barContains bar px py =
     (px \<ge> bar_x bar \<and> px \<le> bar_x bar + bar_width bar \<and>
      py \<ge> bar_y bar \<and> py \<le> bar_y bar + bar_height bar)"

text \<open>\<^verbatim>\<open>hit ? hit.index : null\<close> for the first bar that contains the pointer.\<close>

definition hitIndex :: "state \<Rightarrow> real \<Rightarrow> real \<Rightarrow> nat option" where
  "hitIndex s px py =
     (case List.find (\<lambda>bar. barContains bar px py) (barRects s) of
        None \<Rightarrow> None
      | Some hit \<Rightarrow> Some (bar_index hit))"

definition mousemove :: "real \<Rightarrow> real \<Rightarrow> state \<Rightarrow> state option" where
  "mousemove px py s =
     (let nextIndex = hitIndex s px py
      in if hoverIndex s \<noteq> nextIndex then drawChart (s\<lparr>hoverIndex := nextIndex\<rparr>)
         else Some s)"



text \<open>A point strictly inside a bar's rectangle.\<close>

definition strictlyInside :: "barRect \<Rightarrow> real \<Rightarrow> real \<Rightarrow> bool" where
  "strictlyInside bar px py =
     (bar_x bar < px \<and> px < bar_x bar + bar_width bar \<and>
      bar_y bar < py \<and> py < bar_y bar + bar_height bar)"

subsection \<open>The page at load time\<close>

text \<open>
  The \<^verbatim>\<open>state\<close> object as declared, and the page once setupButtons (one button per
  window, the one of \<^verbatim>\<open>state.selected\<close> active) and setupCustomRange (the two inputs
  filled with the local time a week ago and now) have run. The markup is not among the
  sources: the text elements start empty and the range box hidden. The arguments are
  the bounding rectangle of the canvas and the two input values.
\<close>

definition pageLoaded :: "real \<times> real \<Rightarrow> string \<Rightarrow> string \<Rightarrow> state" where
  "pageLoaded rect weekAgo now =
     \<lparr>selected = ''all'', cache = Map.empty, chartData = [], barRects = [],
      granularity = ''day'', hoverIndex = None,
      buttons = map (\<lambda>w. (fst w, fst w = ''all'')) WINDOWS,
      windowLabel = Str [], windowRange = Str [], uptimePct = Str [], costUsd = Str [],
      chartTitle = Str [], chartSubtitle = Str [],
      rangeBoxVisible = False, controlsShowRange = False,
      startInput = weekAgo, endInput = now,
      chartRect = rect, frame = [], requests = [], redraws = 0\<rparr>"


subsection \<open>Reference notions of the specification\<close>

text \<open>
  The scaling denominator as the specification words it: the maximum of 1 and of the
  tokens of all buckets.
\<close>

definition spec_maxValue :: "bucket list \<Rightarrow> real" where
  "spec_maxValue entries = fold max (map entryTokens entries) 1"





subsection \<open>A session used as example\<close>

definition exampleData :: dataset where
  "exampleData =
     \<lparr>window_start = Some ''2026-01-01T00:00:00Z'', window_end = Some ''2026-01-04T00:00:00Z'',
      data_granularity = Some ''day'',
      token_buckets = Some [\<lparr>bucket_start = ''2026-01-01'', tokens = Some 100\<rparr>,
                            \<lparr>bucket_start = ''2026-01-02'', tokens = Some 400\<rparr>,
                            \<lparr>bucket_start = ''2026-01-03'', tokens = Some 100\<rparr>],
      percent_any_instance = Some 50, cost_total_usd = None, cost_partial = False\<rparr>"



section \<open>Properties\<close>

subsection \<open>Bar packing\<close>

lemmas packing_defs =
  barWidthOf_def barGapOf_def barPacking_def provisionalGap_def
  provisionalWidth_def targetWidth_def minBarWidth_def totalSpan_def

lemma real_pred: "2 \<le> n \<Longrightarrow> real (n - 1) = real n - 1"
  by (simp add: of_nat_diff)

lemma packing_width: "2 \<le> n \<Longrightarrow> 3 \<le> barWidthOf W n"
  unfolding packing_defs Let_def
  by (auto simp: field_simps max_def split: if_splits)

lemma packing_gap: "2 \<le> n \<Longrightarrow> 1 \<le> barGapOf W n \<and> barGapOf W n \<le> 10"
  unfolding packing_defs Let_def
  by (auto simp: field_simps max_def split: if_splits)

lemma packing_spec: "2 \<le> n \<Longrightarrow> barPacking W n = spec_barPacking W n"
  unfolding packing_defs spec_barPacking_def Let_def
  by (simp add: real_pred mult.commute)

lemma span_fits: "2 \<le> n \<Longrightarrow> 4 * real n - 1 \<le> W \<Longrightarrow> totalSpan W n = W"
  unfolding packing_defs Let_def
  by (auto simp: real_pred field_simps max_def split: if_splits)

lemma span_overflows: "2 \<le> n \<Longrightarrow> W < 4 * real n - 1 \<Longrightarrow> totalSpan W n = 4 * real n - 1"
  unfolding packing_defs Let_def
  by (auto simp: real_pred field_simps max_def split: if_splits)

text \<open>
  C1, as stated, fails: with two buckets and a usable width of 1 the minimum bar width 3
  and the minimum gap 1 are kept, so the bars span 7 units, far more than the width.
\<close>

theorem C1_span_counterexample:
  "(2::nat) \<le> 2 \<and> (0::real) < 1 \<and> \<not> totalSpan 1 2 \<le> 1"
  unfolding packing_defs Let_def by simp

text \<open>
  C1, amended: for N \<ge> 2 buckets and a positive usable width W, the bar width is at
  least 3 and the gap lies in [1, 10]; the total span width N + gap (N - 1) equals W when
  W \<ge> 4 N - 1, and is 4 N - 1 (every bar 3 wide, every gap 1), which is more than W,
  when W < 4 N - 1; width and gap are those of the closed-form steps of the
  specification.
\<close>

theorem C1_barPacking_bounds:
  assumes "2 \<le> n" and "0 < W"
  shows "3 \<le> barWidthOf W n \<and> 1 \<le> barGapOf W n \<and> barGapOf W n \<le> 10 \<and>
         (4 * real n - 1 \<le> W \<longrightarrow> totalSpan W n = W) \<and>
         (W < 4 * real n - 1 \<longrightarrow> totalSpan W n = 4 * real n - 1) \<and>
         barPacking W n = spec_barPacking W n"
  using assms packing_width [of n W] packing_gap [of n W] packing_spec [of n W]
    span_fits [of n W] span_overflows [of n W]
  by blast

theorem C1_barPacking_bounds_witness:
  "(2::nat) \<le> 4 \<and> (0::real) < 100 \<and> 4 * real (4::nat) - 1 \<le> 100 \<and>
   barWidthOf 100 4 = 35 / 2 \<and> barGapOf 100 4 = 10 \<and> totalSpan 100 4 = 100 \<and>
   (2::nat) \<le> 2 \<and> (0::real) < 1 \<and> (1::real) < 4 * real (2::nat) - 1 \<and>
   barWidthOf 1 2 = 3 \<and> barGapOf 1 2 = 1 \<and> totalSpan 1 2 = 7"
proof -
  have a: "(2::nat) \<le> 4" and b: "(0::real) < 100" and c: "(2::nat) \<le> 2" and d: "(0::real) < 1"
    by simp_all
  have e: "barWidthOf 100 4 = 35 / 2 \<and> barGapOf 100 4 = 10 \<and>
           barWidthOf 1 2 = 3 \<and> barGapOf 1 2 = 1"
    unfolding packing_defs Let_def by simp
  show ?thesis
    using C1_barPacking_bounds [OF a b] C1_barPacking_bounds [OF c d] e by simp
qed

subsection \<open>Gridline ticks\<close>

lemma pushTicks_unroll:
  "(\<forall>i<k. v + real i * step \<le> m + step * 0.5) \<Longrightarrow> m + step * 0.5 < v + real k * step \<Longrightarrow>
   pushTicks v m step acc = Some (acc @ map (\<lambda>i. v + real i * step) [0 ..< k])"
proof (induction k arbitrary: v acc)
  case 0
  then show ?case by (subst pushTicks.simps) simp
next
  case (Suc k)
  from Suc.prems(1) have v: "v \<le> m + step * 0.5" by force
  have a: "\<forall>i<k. (v + step) + real i * step \<le> m + step * 0.5"
  proof (intro allI impI)
    fix i assume "i < k"
    then have "v + real (Suc i) * step \<le> m + step * 0.5" using Suc.prems(1) by blast
    then show "(v + step) + real i * step \<le> m + step * 0.5" by (simp add: algebra_simps)
  qed
  have b: "m + step * 0.5 < (v + step) + real k * step"
    using Suc.prems(2) by (simp add: algebra_simps)
  have "pushTicks v m step acc = pushTicks (v + step) m step (acc @ [v])"
    using v by (subst pushTicks.simps) simp
  also have "\<dots> = Some ((acc @ [v]) @ map (\<lambda>i. (v + step) + real i * step) [0 ..< k])"
    by (rule Suc.IH [OF a b])
  also have "(acc @ [v]) @ map (\<lambda>i. (v + step) + real i * step) [0 ..< k]
      = acc @ map (\<lambda>i. v + real i * step) [0 ..< Suc k]"
    by (simp add: upt_conv_Cons map_Suc_upt [symmetric] algebra_simps del: upt_Suc)
  finally show ?case .
qed

lemma pushTicks_from_zero:
  assumes "0 < step" "0 \<le> m + step / 2"
  shows "pushTicks 0 m step [] = Some (spec_ticks m step)"
proof -
  let ?L = "m + step / 2"
  let ?n = "nat \<lfloor>?L / step\<rfloor>"
  have q: "0 \<le> ?L / step" using assms by simp
  have a: "\<forall>i<Suc ?n. 0 + real i * step \<le> m + step * 0.5"
  proof (intro allI impI)
    fix i assume "i < Suc ?n"
    then have "int i \<le> \<lfloor>?L / step\<rfloor>" using q by linarith
    then have "real i \<le> ?L / step" by linarith
    then have "real i * step \<le> ?L" using assms(1) by (simp add: pos_le_divide_eq)
    then show "0 + real i * step \<le> m + step * 0.5" by simp
  qed
  have "?L / step < real (Suc ?n)" using q by linarith
  then have "?L < real (Suc ?n) * step" using assms(1) by (simp add: pos_divide_less_eq)
  then have b: "m + step * 0.5 < 0 + real (Suc ?n) * step" by simp
  show ?thesis
    using pushTicks_unroll [OF a b, of "[]"] by (simp add: spec_ticks_def)
qed

lemma spec_ticks_increasing: "0 < step \<Longrightarrow> sorted_wrt (<) (spec_ticks m step)"
  unfolding spec_ticks_def
  by (simp add: sorted_wrt_map sorted_wrt_upt del: upt_Suc)

lemma spec_ticks_hd: "hd (spec_ticks m step) = 0"
  unfolding spec_ticks_def by (simp add: upt_conv_Cons del: upt_Suc)

lemma spec_ticks_last:
  "last (spec_ticks m step) = real (nat \<lfloor>(m + step / 2) / step\<rfloor>) * step"
  unfolding spec_ticks_def by (simp add: last_map)

lemma spec_ticks_last_bounds:
  assumes "0 < step" "0 \<le> m + step / 2"
  shows "m - step / 2 < last (spec_ticks m step) \<and> last (spec_ticks m step) \<le> m + step / 2"
proof -
  let ?L = "m + step / 2"
  let ?n = "nat \<lfloor>?L / step\<rfloor>"
  have q: "0 \<le> ?L / step" using assms by simp
  have "real ?n \<le> ?L / step" using q by linarith
  then have up: "real ?n * step \<le> ?L" using assms(1) by (simp add: pos_le_divide_eq)
  have "?L / step < real ?n + 1" using q by linarith
  then have "?L < (real ?n + 1) * step" using assms(1) by (simp add: pos_divide_less_eq)
  then have lo: "m - step / 2 < real ?n * step" by (simp add: algebra_simps)
  show ?thesis using up lo by (simp add: spec_ticks_last)
qed

lemma magnitude_bounds:
  assumes "0 < r"
  shows "0 < tickMagnitude r \<and> tickMagnitude r \<le> r \<and> r < 10 * tickMagnitude r \<and>
         tickMagnitude r = 10 powr of_int \<lfloor>log 10 r\<rfloor>"
proof -
  let ?e = "\<lfloor>log 10 r\<rfloor>"
  have m: "tickMagnitude r = 10 powr of_int ?e"
    using assms by (simp add: tickMagnitude_def)
  have "(10::real) powr of_int ?e \<le> r \<and> r < 10 powr of_int (?e + 1)"
    using floor_log_eq_powr_iff [of r 10 ?e] assms by simp
  moreover have "(10::real) powr of_int (?e + 1) = 10 * 10 powr of_int ?e"
    by (simp add: powr_add)
  ultimately show ?thesis using m by simp
qed

lemma tickStep_cases:
  assumes "0 < m"
  shows "tickStep m =
           (if 5 \<le> (m / 4) / 10 powr of_int \<lfloor>log 10 (m / 4)\<rfloor> then 5
            else if 2 \<le> (m / 4) / 10 powr of_int \<lfloor>log 10 (m / 4)\<rfloor> then 2 else 1)
           * 10 powr of_int \<lfloor>log 10 (m / 4)\<rfloor>"
  using assms magnitude_bounds [of "m / 4"]
  by (simp add: tickStep_def Let_def)

lemma tickStep_pos: "0 < m \<Longrightarrow> 0 < tickStep m"
  using magnitude_bounds [of "m / 4"]
  by (simp add: tickStep_def Let_def)

lemma normalized_bounds:
  assumes "0 < m"
  shows "1 \<le> (m / 4) / 10 powr of_int \<lfloor>log 10 (m / 4)\<rfloor> \<and>
         (m / 4) / 10 powr of_int \<lfloor>log 10 (m / 4)\<rfloor> < 10"
  using assms magnitude_bounds [of "m / 4"]
  by (simp add: pos_le_divide_eq pos_divide_less_eq)

lemma getLinearTicks_nonpos: "m \<le> 0 \<Longrightarrow> getLinearTicks m = Some [0]"
  by (simp add: getLinearTicks_def)

lemma getLinearTicks_pos:
  assumes "0 < m"
  shows "getLinearTicks m = Some (spec_ticks m (tickStep m))"
proof -
  have s: "0 < tickStep m" by (rule tickStep_pos [OF assms])
  then have "0 \<le> m + tickStep m / 2" using assms by simp
  from pushTicks_from_zero [OF s this] show ?thesis
    using assms by (simp add: getLinearTicks_def)
qed

lemma getLinearTicks_total: "\<exists>ts. getLinearTicks m = Some ts"
  by (cases "m \<le> 0") (simp_all add: getLinearTicks_nonpos getLinearTicks_pos)

lemma floor_log10_between:
  "10 ^ k \<le> r \<Longrightarrow> r < 10 ^ Suc k \<Longrightarrow> \<lfloor>log 10 r\<rfloor> = int k"
proof -
  assume a: "10 ^ k \<le> r" and b: "r < 10 ^ Suc k"
  have r: "0 < r" using a by (meson less_le_trans zero_less_numeral zero_less_power)
  have "(10::real) powr of_int (int k) = 10 ^ k" by (simp add: powr_realpow)
  moreover have "(10::real) powr of_int (int k + 1) = 10 ^ Suc k"
    by (simp add: powr_add powr_realpow)
  ultimately show ?thesis
    using floor_log_eq_powr_iff [of r 10 "int k"] r a b by simp
qed

text \<open>
  C2: getLinearTicks returns [0] for every maxTokens \<le> 0. For maxTokens > 0, with
  roughStep = maxTokens/4, m the floor of its decimal logarithm and normalized =
  roughStep/10^m (which lies in [1, 10)), the step is k 10^m with k = 5 when
  normalized \<ge> 5, k = 2 when normalized \<ge> 2 and k = 1 otherwise; the loop returns,
  with the ticks 0, step, 2 step, ... up to the largest multiple that is at most
  maxTokens + step/2; the list increases strictly from 0 and its last element is within
  half a step of maxTokens (above maxTokens - step/2, at most maxTokens + step/2).
\<close>

theorem C2_getLinearTicks:
  "(maxTokens \<le> 0 \<longrightarrow> getLinearTicks maxTokens = Some [0]) \<and>
   (0 < maxTokens \<longrightarrow>
      (let roughStep = maxTokens / 4;
           m = \<lfloor>log 10 roughStep\<rfloor>;
           normalized = roughStep / 10 powr of_int m;
           k = (if 5 \<le> normalized then 5 else if 2 \<le> normalized then 2 else 1);
           step = k * 10 powr of_int m;
           ts = spec_ticks maxTokens step
       in 1 \<le> normalized \<and> normalized < 10 \<and>
          tickStep maxTokens = step \<and>
          getLinearTicks maxTokens = Some ts \<and>
          sorted_wrt (<) ts \<and> hd ts = 0 \<and>
          maxTokens - step / 2 < last ts \<and> last ts \<le> maxTokens + step / 2))"
proof (intro conjI impI)
  assume "maxTokens \<le> 0"
  then show "getLinearTicks maxTokens = Some [0]" by (rule getLinearTicks_nonpos)
next
  assume pos: "0 < maxTokens"
  have s: "0 < tickStep maxTokens" by (rule tickStep_pos [OF pos])
  then have l: "0 \<le> maxTokens + tickStep maxTokens / 2" using pos by simp
  show "let roughStep = maxTokens / 4;
           m = \<lfloor>log 10 roughStep\<rfloor>;
           normalized = roughStep / 10 powr of_int m;
           k = (if 5 \<le> normalized then 5 else if 2 \<le> normalized then 2 else 1);
           step = k * 10 powr of_int m;
           ts = spec_ticks maxTokens step
       in 1 \<le> normalized \<and> normalized < 10 \<and>
          tickStep maxTokens = step \<and>
          getLinearTicks maxTokens = Some ts \<and>
          sorted_wrt (<) ts \<and> hd ts = 0 \<and>
          maxTokens - step / 2 < last ts \<and> last ts \<le> maxTokens + step / 2"
    unfolding Let_def tickStep_cases [OF pos, symmetric]
    using normalized_bounds [OF pos] getLinearTicks_pos [OF pos]
      spec_ticks_increasing [OF s, of maxTokens] spec_ticks_hd [of maxTokens "tickStep maxTokens"]
      spec_ticks_last_bounds [OF s l]
    by simp
qed

theorem C2_getLinearTicks_witness:
  "(- 3::real) \<le> 0 \<and> getLinearTicks (- 3) = Some [0] \<and>
   (0::real) < 100 \<and> tickStep 100 = 20 \<and>
   getLinearTicks 100 = Some [0, 20, 40, 60, 80, 100]"
proof -
  have f: "\<lfloor>log 10 (25::real)\<rfloor> = int 1"
    by (rule floor_log10_between) simp_all
  have t: "spec_ticks 100 20 = [0, 20, 40, 60, 80, 100]"
    by (simp add: spec_ticks_def upt_conv_Cons del: upt_Suc)
  show ?thesis
    using C2_getLinearTicks [of "- 3"] C2_getLinearTicks [of 100] f t
    by (simp add: Let_def)
qed

subsection \<open>Value scaling and drawChart\<close>

lemma fold_max_Max: "fold max xs (a::real) = Max (insert a (set xs))"
  using Max.set_eq_fold [of a xs] by simp

lemma maxTokensOf_Max: "maxTokensOf entries = Max (insert 0 (entryTokens ` set entries))"
  by (simp add: maxTokensOf_def fold_max_Max)

lemma maxTokensOf_nonneg: "0 \<le> maxTokensOf entries"
  by (simp add: maxTokensOf_Max)

lemma maxTokensOf_upper: "e \<in> set entries \<Longrightarrow> entryTokens e \<le> maxTokensOf entries"
  by (simp add: maxTokensOf_Max)

lemma maxTokensOf_mem: "maxTokensOf entries = 0 \<or> maxTokensOf entries \<in> entryTokens ` set entries"
  using Max_in [of "insert 0 (entryTokens ` set entries)"] by (auto simp: maxTokensOf_Max)

lemma maxValueOf_pos: "0 < maxValueOf entries"
  using maxTokensOf_nonneg [of entries] by (simp add: maxValueOf_def)

lemma spec_maxValue_Max: "spec_maxValue entries = Max (insert 1 (entryTokens ` set entries))"
  by (simp add: spec_maxValue_def fold_max_Max)

lemma maxValueOf_spec:
  assumes "\<forall>e\<in>set entries. entryTokens e \<le> 0 \<or> 1 \<le> entryTokens e"
  shows "maxValueOf entries = spec_maxValue entries"
proof -
  let ?T = "entryTokens ` set entries"
  have fin: "finite ?T" by simp
  show ?thesis
  proof (cases "maxTokensOf entries = 0")
    case True
    then have "\<forall>t\<in>?T. t \<le> 0" using maxTokensOf_upper [of _ entries] by force
    then have "Max (insert 1 ?T) = 1"
      by (intro Max_eqI) (auto intro: order_trans [of _ 0 1])
    then show ?thesis using True by (simp add: maxValueOf_def spec_maxValue_Max)
  next
    case False
    then have mem: "maxTokensOf entries \<in> ?T" using maxTokensOf_mem [of entries] by simp
    then have "0 < maxTokensOf entries" using False maxTokensOf_nonneg [of entries] by simp
    then have "1 \<le> maxTokensOf entries" using mem assms by force
    then have "Max (insert 1 ?T) = maxTokensOf entries"
      using mem maxTokensOf_upper [of _ entries] by (intro Max_eqI) auto
    then show ?thesis using False by (simp add: maxValueOf_def spec_maxValue_Max)
  qed
qed

lemma heightPx_all_zero:
  "\<forall>e\<in>set entries. entryTokens e = 0 \<Longrightarrow> e \<in> set entries \<Longrightarrow> heightPx entries H e = 0"
  by (simp add: heightPx_def)

lemma heightPx_single:
  assumes "i < length entries" "0 < entryTokens (entries ! i)"
    and "\<forall>j<length entries. j \<noteq> i \<longrightarrow> entryTokens (entries ! j) = 0"
  shows "heightPx entries H (entries ! i) = H"
proof -
  let ?t = "entryTokens (entries ! i)"
  have "\<forall>e\<in>set entries. entryTokens e \<le> ?t"
  proof
    fix e assume "e \<in> set entries"
    then obtain j where j: "j < length entries" "e = entries ! j" by (auto simp: in_set_conv_nth)
    show "entryTokens e \<le> ?t"
      using j assms by (cases "j = i") auto
  qed
  then have "Max (insert 0 (entryTokens ` set entries)) = ?t"
    using assms(1,2) by (intro Max_eqI) auto
  then have "maxValueOf entries = ?t"
    using assms(2) by (simp add: maxValueOf_def maxTokensOf_Max)
  then show ?thesis using assms(2) by (simp add: heightPx_def)
qed

lemma drawChart_total: "\<exists>s'. drawChart s = Some s'"
  using getLinearTicks_total [of "maxTokensOf (chartData s)"]
  by (auto simp: drawChart_def Let_def)

lemma drawChart_barRects:
  "drawChart s = Some s' \<Longrightarrow>
   barRects s' = map (barRectOf s) (zip [0 ..< length (chartData s)] (chartData s))"
  by (auto simp: drawChart_def Let_def split: option.splits)

lemma drawChart_keeps:
  "drawChart s = Some s' \<Longrightarrow>
   s' = s\<lparr>barRects := barRects s', frame := frame s', redraws := Suc (redraws s)\<rparr>"
  by (auto simp: drawChart_def Let_def split: option.splits)

lemma drawChart_bar:
  assumes "drawChart s = Some s'" "i < length (chartData s)"
  shows "barRects s' ! i = barRectOf s (i, chartData s ! i)"
  using assms by (simp add: drawChart_barRects)

lemma drawChart_length: "drawChart s = Some s' \<Longrightarrow> length (barRects s') = length (chartData s)"
  by (simp add: drawChart_barRects)

lemma bar_height_barRectOf:
  "bar_height (barRectOf s (i, e)) = heightPx (chartData s) (chartHeightOf s) e"
  by (simp add: barRectOf_def Let_def)

lemma bar_index_barRectOf: "bar_index (barRectOf s (i, e)) = i"
  by (simp add: barRectOf_def Let_def)

text \<open>
  C3, as stated, fails: for a single bucket of 1/2 token the denominator is 1/2, not
  max(1, 1/2) = 1 (the code replaces a maximum of exactly 0 by 1 and keeps every other
  maximum), so the bar takes the full usable height instead of half of it.
\<close>

theorem C3_maxValue_counterexample:
  "maxValueOf [\<lparr>bucket_start = ''t0'', tokens = Some (1 / 2)\<rparr>] = 1 / 2 \<and>
   spec_maxValue [\<lparr>bucket_start = ''t0'', tokens = Some (1 / 2)\<rparr>] = 1 \<and>
   heightPx [\<lparr>bucket_start = ''t0'', tokens = Some (1 / 2)\<rparr>] 142
     \<lparr>bucket_start = ''t0'', tokens = Some (1 / 2)\<rparr> = 142"
  by (simp add: maxValueOf_def maxTokensOf_def spec_maxValue_def heightPx_def entryTokens_def)

text \<open>
  C3, amended: for every bucket sequence drawChart returns, with one bar per bucket.
  Its scaling denominator is the maximum M of 0 and of the tokens of all buckets when M
  is not 0, and 1 when M is 0; it is positive, so never 0, and it equals
  max(1, maximum tokens) whenever no bucket has a token count strictly between 0 and 1
  (so for whole-number counts). Each bar's height is (tokens / maxValue) H'; when all
  buckets have tokens = 0 every bar has height 0; when exactly one bucket has nonzero
  tokens, a positive count, its bar has the full usable height H'.
\<close>

theorem C3_scaling:
  "\<exists>s'. drawChart s = Some s' \<and>
     length (barRects s') = length (chartData s) \<and>
     maxValueOf (chartData s) =
       (let M = Max (insert 0 (entryTokens ` set (chartData s))) in if M = 0 then 1 else M) \<and>
     0 < maxValueOf (chartData s) \<and>
     ((\<forall>e\<in>set (chartData s). entryTokens e \<le> 0 \<or> 1 \<le> entryTokens e) \<longrightarrow>
        maxValueOf (chartData s) = spec_maxValue (chartData s)) \<and>
     (\<forall>i<length (chartData s).
        bar_height (barRects s' ! i) =
          entryTokens (chartData s ! i) / maxValueOf (chartData s) * chartHeightOf s) \<and>
     ((\<forall>e\<in>set (chartData s). entryTokens e = 0) \<longrightarrow>
        (\<forall>i<length (chartData s). bar_height (barRects s' ! i) = 0)) \<and>
     (\<forall>i<length (chartData s).
        0 < entryTokens (chartData s ! i) \<and>
        (\<forall>j<length (chartData s). j \<noteq> i \<longrightarrow> entryTokens (chartData s ! j) = 0) \<longrightarrow>
        bar_height (barRects s' ! i) = chartHeightOf s)"
proof -
  obtain s' where d: "drawChart s = Some s'" using drawChart_total [of s] by blast
  have h: "bar_height (barRects s' ! i) = heightPx (chartData s) (chartHeightOf s) (chartData s ! i)"
    if "i < length (chartData s)" for i
    using drawChart_bar [OF d that] by (simp add: bar_height_barRectOf)
  have 1: "length (barRects s') = length (chartData s)" by (rule drawChart_length [OF d])
  have 2: "maxValueOf (chartData s) =
       (let M = Max (insert 0 (entryTokens ` set (chartData s))) in if M = 0 then 1 else M)"
    by (simp add: maxValueOf_def maxTokensOf_Max)
  have 3: "0 < maxValueOf (chartData s)" by (rule maxValueOf_pos)
  have 4: "(\<forall>e\<in>set (chartData s). entryTokens e \<le> 0 \<or> 1 \<le> entryTokens e) \<longrightarrow>
        maxValueOf (chartData s) = spec_maxValue (chartData s)"
    using maxValueOf_spec [of "chartData s"] by blast
  have 5: "\<forall>i<length (chartData s).
        bar_height (barRects s' ! i) =
          entryTokens (chartData s ! i) / maxValueOf (chartData s) * chartHeightOf s"
    using h by (simp add: heightPx_def)
  have 6: "(\<forall>e\<in>set (chartData s). entryTokens e = 0) \<longrightarrow>
        (\<forall>i<length (chartData s). bar_height (barRects s' ! i) = 0)"
    using h by (simp add: heightPx_def)
  have 7: "\<forall>i<length (chartData s).
        0 < entryTokens (chartData s ! i) \<and>
        (\<forall>j<length (chartData s). j \<noteq> i \<longrightarrow> entryTokens (chartData s ! j) = 0) \<longrightarrow>
        bar_height (barRects s' ! i) = chartHeightOf s"
    using h heightPx_single [of _ "chartData s" "chartHeightOf s"] by simp
  show ?thesis using d 1 2 3 4 5 6 7 by blast
qed

theorem C3_scaling_witness:
  "(\<exists>s'. drawChart ((pageLoaded (310, 200) ''a'' ''b'')
            \<lparr>chartData := [\<lparr>bucket_start = ''t0'', tokens = Some 0\<rparr>,
                           \<lparr>bucket_start = ''t1'', tokens = Some 7\<rparr>]\<rparr>) = Some s' \<and>
         bar_height (barRects s' ! 0) = 0 \<and> bar_height (barRects s' ! 1) = 142) \<and>
   (\<exists>s'. drawChart ((pageLoaded (310, 200) ''a'' ''b'')
            \<lparr>chartData := [\<lparr>bucket_start = ''t0'', tokens = Some 0\<rparr>,
                           \<lparr>bucket_start = ''t1'', tokens = None\<rparr>]\<rparr>) = Some s' \<and>
         bar_height (barRects s' ! 0) = 0 \<and> bar_height (barRects s' ! 1) = 0)"
proof -
  let ?one = "(pageLoaded (310, 200) ''a'' ''b'')
            \<lparr>chartData := [\<lparr>bucket_start = ''t0'', tokens = Some 0\<rparr>,
                           \<lparr>bucket_start = ''t1'', tokens = Some 7\<rparr>]\<rparr>"
  let ?zero = "(pageLoaded (310, 200) ''a'' ''b'')
            \<lparr>chartData := [\<lparr>bucket_start = ''t0'', tokens = Some 0\<rparr>,
                           \<lparr>bucket_start = ''t1'', tokens = None\<rparr>]\<rparr>"
  have m: "maxValueOf (chartData ?one) = 7"
    by (simp add: maxValueOf_def maxTokensOf_def entryTokens_def)
  have a: ?thesis if
    "\<exists>s'. drawChart ?one = Some s' \<and> bar_height (barRects s' ! 0) = 0 \<and>
        bar_height (barRects s' ! 1) = 142"
    "\<exists>s'. drawChart ?zero = Some s' \<and> bar_height (barRects s' ! 0) = 0 \<and>
        bar_height (barRects s' ! 1) = 0"
    using that by blast
  show ?thesis
  proof (rule a)
    show "\<exists>s'. drawChart ?one = Some s' \<and> bar_height (barRects s' ! 0) = 0 \<and>
        bar_height (barRects s' ! 1) = 142"
      using C3_scaling [of ?one] m
      by (auto simp: entryTokens_def chartHeightOf_def pageLoaded_def All_less_Suc)
    show "\<exists>s'. drawChart ?zero = Some s' \<and> bar_height (barRects s' ! 0) = 0 \<and>
        bar_height (barRects s' ! 1) = 0"
      using C3_scaling [of ?zero]
      by (auto simp: entryTokens_def All_less_Suc)
  qed
qed

lemma map_snd_indexed:
  "map (\<lambda>ie. f (snd ie)) (zip [0 ..< length xs] xs) = map f xs"
proof -
  have "map f xs = map f (map snd (zip [0 ..< length xs] xs))" by simp
  also have "\<dots> = map (\<lambda>ie. f (snd ie)) (zip [0 ..< length xs] xs)"
    by (simp only: map_map o_def)
  finally show ?thesis by (rule sym)
qed

lemma drawChart_heights:
  assumes "drawChart s = Some s'"
  shows "map bar_height (barRects s') =
           map (\<lambda>e. entryTokens e / maxValueOf (chartData s) * chartHeightOf s) (chartData s)"
proof -
  have "map bar_height (barRects s') =
          map (\<lambda>ie. heightPx (chartData s) (chartHeightOf s) (snd ie))
            (zip [0 ..< length (chartData s)] (chartData s))"
    by (simp add: drawChart_barRects [OF assms] barRectOf_def Let_def)
  also have "\<dots> = map (heightPx (chartData s) (chartHeightOf s)) (chartData s)"
    by (rule map_snd_indexed)
  finally show ?thesis by (simp add: heightPx_def)
qed

text \<open>
  C8, as stated, fails in one figure: the provisional gap of the scenario is
  (234 - 3 * 54.6)/2 = 35.1, not 53.1.
\<close>

theorem C8_provisional_gap_counterexample:
  "provisionalGap 234 3 = 351 / 10 \<and> \<not> \<bar>provisionalGap 234 3 - 531 / 10\<bar> \<le> 1 / 20"
  by (simp add: provisionalGap_def provisionalWidth_def targetWidth_def minBarWidth_def)

text \<open>
  C8, amended: for buckets with tokens [100, 400, 100], usable width 234 and usable
  height 142 (a canvas of 310 by 200), the target width is 54.6 and the provisional gap
  35.1; the gap is clamped to 10 and the width recomputed as (234 - 20)/3 = 214/3, which
  is 71.3 to one decimal; maxValue is 400 and drawChart produces the bar heights
  [35.5, 142, 35.5].
\<close>

theorem C8_scenario:
  assumes "chartRect s = (310, 200)"
    and "map entryTokens (chartData s) = [100, 400, 100]"
  shows "chartWidthOf s = 234 \<and> chartHeightOf s = 142 \<and>
         targetWidth 234 3 = 546 / 10 \<and> provisionalGap 234 3 = 351 / 10 \<and>
         barGapOf 234 3 = 10 \<and> barWidthOf 234 3 = (234 - 20) / 3 \<and>
         \<bar>barWidthOf 234 3 - 713 / 10\<bar> \<le> 1 / 20 \<and>
         maxValueOf (chartData s) = 400 \<and>
         (\<exists>s'. drawChart s = Some s' \<and>
            map bar_height (barRects s') = [355 / 10, 142, 355 / 10] \<and>
            map bar_width (barRects s') = [214 / 3, 214 / 3, 214 / 3])"
proof -
  obtain s' where d: "drawChart s = Some s'" using drawChart_total [of s] by blast
  have len: "length (chartData s) = 3"
    using arg_cong [OF assms(2), of length] by simp
  have w: "chartWidthOf s = 234" and h: "chartHeightOf s = 142"
    using assms(1) by (simp_all add: chartWidthOf_def chartHeightOf_def)
  have p: "targetWidth 234 3 = 546 / 10 \<and> provisionalGap 234 3 = 351 / 10 \<and>
           barGapOf 234 3 = 10 \<and> barWidthOf 234 3 = (234 - 20) / 3"
    unfolding packing_defs Let_def by simp
  have m: "maxValueOf (chartData s) = 400"
    by (simp add: maxValueOf_def maxTokensOf_def assms(2))
  have "map bar_height (barRects s') =
          map (\<lambda>t. t / 400 * 142) (map entryTokens (chartData s))"
    by (simp add: drawChart_heights [OF d] m h)
  then have hs: "map bar_height (barRects s') = [355 / 10, 142, 355 / 10]"
    by (simp add: assms(2))
  have "map bar_width (barRects s') =
          map (\<lambda>ie. barWidthOf 234 3) (zip [0 ..< 3] (chartData s))"
    by (simp add: drawChart_barRects [OF d] barRectOf_def Let_def w len)
  also have "\<dots> = replicate 3 (barWidthOf 234 3)"
    by (simp add: map_replicate_const len)
  finally have ws: "map bar_width (barRects s') = [214 / 3, 214 / 3, 214 / 3]"
    using p by (simp add: numeral_3_eq_3)
  show ?thesis using d w h p m hs ws by simp
qed

theorem C8_scenario_witness:
  "\<exists>s'. drawChart ((pageLoaded (310, 200) ''a'' ''b'')
           \<lparr>chartData := [\<lparr>bucket_start = ''t0'', tokens = Some 100\<rparr>,
                          \<lparr>bucket_start = ''t1'', tokens = Some 400\<rparr>,
                          \<lparr>bucket_start = ''t2'', tokens = Some 100\<rparr>]\<rparr>) = Some s' \<and>
        map bar_height (barRects s') = [355 / 10, 142, 355 / 10]"
proof -
  let ?s = "(pageLoaded (310, 200) ''a'' ''b'')
           \<lparr>chartData := [\<lparr>bucket_start = ''t0'', tokens = Some 100\<rparr>,
                          \<lparr>bucket_start = ''t1'', tokens = Some 400\<rparr>,
                          \<lparr>bucket_start = ''t2'', tokens = Some 100\<rparr>]\<rparr>"
  have a: "chartRect ?s = (310, 200)" by (simp add: pageLoaded_def)
  have b: "map entryTokens (chartData ?s) = [100, 400, 100]"
    by (simp add: entryTokens_def)
  from C8_scenario [OF a b] show ?thesis
    by (elim conjE exE) (intro exI conjI; assumption)
qed

subsection \<open>Hover hit test\<close>

lemma drawChart_indexed:
  assumes "drawChart s0 = Some s1" "i < length (barRects s1)"
  shows "bar_index (barRects s1 ! i) = i"
  using assms drawChart_length [OF assms(1)]
  by (simp add: drawChart_bar bar_index_barRectOf)

lemma drawChart_bar_x:
  assumes "drawChart s0 = Some s1" "i < length (barRects s1)"
  shows "bar_x (barRects s1 ! i) =
           56 + real i * (barWidthOf (chartWidthOf s0) (length (barRects s1))
                          + barGapOf (chartWidthOf s0) (length (barRects s1))) \<and>
         bar_width (barRects s1 ! i) = barWidthOf (chartWidthOf s0) (length (barRects s1))"
  using assms drawChart_length [OF assms(1)]
  by (simp add: drawChart_bar barRectOf_def Let_def)

lemma bars_apart:
  assumes d: "drawChart s0 = Some s1"
    and i: "i < length (barRects s1)" and ji: "j < i"
  shows "bar_x (barRects s1 ! j) + bar_width (barRects s1 ! j) < bar_x (barRects s1 ! i)"
proof -
  let ?n = "length (barRects s1)"
  let ?w = "barWidthOf (chartWidthOf s0) ?n"
  let ?g = "barGapOf (chartWidthOf s0) ?n"
  have n: "2 \<le> ?n" using i ji by simp
  have w: "3 \<le> ?w" by (rule packing_width [OF n])
  have g: "1 \<le> ?g" using packing_gap [OF n] by simp
  have "real j + 1 \<le> real i" using ji by simp
  then have "(real j + 1) * (?w + ?g) \<le> real i * (?w + ?g)"
    using w g by (intro mult_right_mono) simp_all
  then have "real j * (?w + ?g) + ?w < real i * (?w + ?g)"
    using g by (simp add: algebra_simps)
  moreover have "j < ?n" using i ji by simp
  ultimately show ?thesis
    using drawChart_bar_x [OF d i] drawChart_bar_x [OF d \<open>j < ?n\<close>] by simp
qed

lemma bars_disjoint:
  assumes d: "drawChart s0 = Some s1"
    and i: "i < length (barRects s1)" and j: "j < length (barRects s1)"
    and ci: "barContains (barRects s1 ! i) px py" and cj: "barContains (barRects s1 ! j) px py"
  shows "i = j"
proof (rule ccontr)
  assume "i \<noteq> j"
  then consider "j < i" | "i < j" by linarith
  then show False
  proof cases
    case 1
    from bars_apart [OF d i 1] ci cj show False by (simp add: barContains_def)
  next
    case 2
    from bars_apart [OF d j 2] ci cj show False by (simp add: barContains_def)
  qed
qed

lemma hitIndex_first:
  assumes "i < length (barRects s)" "barContains (barRects s ! i) px py"
    and "\<forall>j<i. \<not> barContains (barRects s ! j) px py"
  shows "hitIndex s px py = Some (bar_index (barRects s ! i))"
proof -
  have "List.find (\<lambda>bar. barContains bar px py) (barRects s) = Some (barRects s ! i)"
    using assms by (auto simp: find_Some_iff)
  then show ?thesis by (simp add: hitIndex_def)
qed

lemma hitIndex_none:
  assumes "\<forall>j<length (barRects s). \<not> barContains (barRects s ! j) px py"
  shows "hitIndex s px py = None"
proof -
  have "List.find (\<lambda>bar. barContains bar px py) (barRects s) = None"
    using assms by (auto simp: find_None_iff in_set_conv_nth)
  then show ?thesis by (simp add: hitIndex_def)
qed

lemma strictlyInside_contains: "strictlyInside bar px py \<Longrightarrow> barContains bar px py"
  by (simp add: strictlyInside_def barContains_def)

lemma mousemove_same: "hitIndex s px py = hoverIndex s \<Longrightarrow> mousemove px py s = Some s"
  by (simp add: mousemove_def Let_def)

lemma drawChart_fields:
  assumes "drawChart s = Some s'"
  shows "selected s' = selected s" "cache s' = cache s" "chartData s' = chartData s"
    "granularity s' = granularity s" "hoverIndex s' = hoverIndex s"
    "buttons s' = buttons s" "windowLabel s' = windowLabel s" "windowRange s' = windowRange s"
    "uptimePct s' = uptimePct s" "costUsd s' = costUsd s" "chartTitle s' = chartTitle s"
    "chartSubtitle s' = chartSubtitle s" "rangeBoxVisible s' = rangeBoxVisible s"
    "controlsShowRange s' = controlsShowRange s" "startInput s' = startInput s"
    "endInput s' = endInput s" "chartRect s' = chartRect s" "requests s' = requests s"
    "redraws s' = Suc (redraws s)"
  using assms by (auto simp: drawChart_def Let_def split: option.splits)

lemma mousemove_changed:
  assumes "hitIndex s px py \<noteq> hoverIndex s"
  shows "\<exists>s'. mousemove px py s = Some s' \<and> hoverIndex s' = hitIndex s px py \<and>
              redraws s' = Suc (redraws s)"
proof -
  let ?t = "s\<lparr>hoverIndex := hitIndex s px py\<rparr>"
  obtain s' where d: "drawChart ?t = Some s'" using drawChart_total [of ?t] by blast
  have "hoverIndex s' = hitIndex s px py \<and> redraws s' = Suc (redraws s)"
    using drawChart_fields(5,19) [OF d] by simp
  then show ?thesis using assms d by (auto simp: mousemove_def Let_def)
qed

text \<open>
  C4: on the rectangles that drawChart stored, a pointer strictly inside the rectangle
  of bar i and outside all other rectangles selects index i, and a pointer outside all
  rectangles selects none; the rectangles of two different bars never contain the same
  point, so the bar found is the only one. The stored hover index is left as it is, with
  no redraw, when the computed index equals it, and is set to the computed index, with
  one redraw, when it differs.
\<close>

theorem C4_hover:
  assumes "drawChart s0 = Some s1" and "barRects s = barRects s1"
  shows "(\<forall>i<length (barRects s).
            strictlyInside (barRects s ! i) px py \<and>
            (\<forall>j<length (barRects s). j \<noteq> i \<longrightarrow> \<not> barContains (barRects s ! j) px py)
            \<longrightarrow> hitIndex s px py = Some i) \<and>
         ((\<forall>j<length (barRects s). \<not> barContains (barRects s ! j) px py)
            \<longrightarrow> hitIndex s px py = None) \<and>
         (\<forall>i<length (barRects s). \<forall>j<length (barRects s).
            barContains (barRects s ! i) px py \<and> barContains (barRects s ! j) px py
            \<longrightarrow> i = j) \<and>
         (hitIndex s px py = hoverIndex s \<longrightarrow> mousemove px py s = Some s) \<and>
         (hitIndex s px py \<noteq> hoverIndex s \<longrightarrow>
            (\<exists>s'. mousemove px py s = Some s' \<and> hoverIndex s' = hitIndex s px py \<and>
                  redraws s' = Suc (redraws s)))"
proof (intro conjI allI impI)
  fix i
  assume i: "i < length (barRects s)"
    and h: "strictlyInside (barRects s ! i) px py \<and>
            (\<forall>j<length (barRects s). j \<noteq> i \<longrightarrow> \<not> barContains (barRects s ! j) px py)"
  have "\<forall>j<i. \<not> barContains (barRects s ! j) px py" using i h by simp
  from hitIndex_first [OF i strictlyInside_contains this] h
  have "hitIndex s px py = Some (bar_index (barRects s ! i))" by simp
  then show "hitIndex s px py = Some i"
    using drawChart_indexed [OF assms(1), of i] i assms(2) by simp
next
  assume "\<forall>j<length (barRects s). \<not> barContains (barRects s ! j) px py"
  then show "hitIndex s px py = None" by (rule hitIndex_none)
next
  fix i j
  assume "i < length (barRects s)" "j < length (barRects s)"
    "barContains (barRects s ! i) px py \<and> barContains (barRects s ! j) px py"
  then show "i = j" using bars_disjoint [OF assms(1), of i j px py] assms(2) by simp
next
  assume "hitIndex s px py = hoverIndex s"
  then show "mousemove px py s = Some s" by (rule mousemove_same)
next
  assume "hitIndex s px py \<noteq> hoverIndex s"
  then show "\<exists>s'. mousemove px py s = Some s' \<and> hoverIndex s' = hitIndex s px py \<and>
                  redraws s' = Suc (redraws s)"
    by (rule mousemove_changed)
qed

theorem C4_hover_witness:
  "\<exists>s1. drawChart ((pageLoaded (310, 200) ''a'' ''b'')
           \<lparr>chartData := [\<lparr>bucket_start = ''t0'', tokens = Some 100\<rparr>,
                          \<lparr>bucket_start = ''t1'', tokens = Some 400\<rparr>,
                          \<lparr>bucket_start = ''t2'', tokens = Some 100\<rparr>]\<rparr>) = Some s1 \<and>
        strictlyInside (barRects s1 ! 1) 150 100 \<and>
        hitIndex s1 150 100 = Some 1 \<and>
        hitIndex s1 150 10 = None \<and>
        mousemove 150 10 s1 = Some s1 \<and>
        (\<exists>s'. mousemove 150 100 s1 = Some s' \<and> hoverIndex s' = Some 1 \<and>
              redraws s' = Suc (redraws s1))"
proof -
  let ?s0 = "(pageLoaded (310, 200) ''a'' ''b'')
           \<lparr>chartData := [\<lparr>bucket_start = ''t0'', tokens = Some 100\<rparr>,
                          \<lparr>bucket_start = ''t1'', tokens = Some 400\<rparr>,
                          \<lparr>bucket_start = ''t2'', tokens = Some 100\<rparr>]\<rparr>"
  obtain s1 where d: "drawChart ?s0 = Some s1" using drawChart_total [of ?s0] by blast
  have hov: "hoverIndex s1 = None"
    using drawChart_fields(5) [OF d] by (simp add: pageLoaded_def)
  have m: "maxValueOf [\<lparr>bucket_start = ''t0'', tokens = Some 100\<rparr>,
                      \<lparr>bucket_start = ''t1'', tokens = Some 400\<rparr>,
                      \<lparr>bucket_start = ''t2'', tokens = Some 100\<rparr>] = 400"
    by (simp add: maxValueOf_def maxTokensOf_def entryTokens_def)
  have "barPacking 234 3 = (214 / 3, 10)"
    unfolding packing_defs Let_def by simp
  then have p: "barPacking 234 (Suc (Suc (Suc 0))) = (214 / 3, 10)"
    by (simp add: numeral_3_eq_3)
  have r: "barRects s1 =
      [\<lparr>bar_index = 0, bar_x = 56, bar_y = 261 / 2, bar_width = 214 / 3, bar_height = 71 / 2\<rparr>,
       \<lparr>bar_index = 1, bar_x = 412 / 3, bar_y = 24, bar_width = 214 / 3, bar_height = 142\<rparr>,
       \<lparr>bar_index = 2, bar_x = 656 / 3, bar_y = 261 / 2, bar_width = 214 / 3, bar_height = 71 / 2\<rparr>]"
    by (simp add: drawChart_barRects [OF d] barRectOf_def Let_def m p heightPx_def
        barWidthOf_def barGapOf_def chartWidthOf_def chartHeightOf_def pageLoaded_def
        entryTokens_def upt_conv_Cons)
  have in1: "strictlyInside (barRects s1 ! 1) 150 100"
    by (simp add: r strictlyInside_def)
  have out1: "\<forall>j<length (barRects s1). j \<noteq> 1 \<longrightarrow> \<not> barContains (barRects s1 ! j) 150 100"
    by (simp add: r barContains_def All_less_Suc numeral_3_eq_3)
  have out2: "\<forall>j<length (barRects s1). \<not> barContains (barRects s1 ! j) 150 10"
    by (simp add: r barContains_def All_less_Suc numeral_3_eq_3)
  have l: "1 < length (barRects s1)" by (simp add: r)
  have a: "hitIndex s1 150 100 = Some 1"
    using C4_hover [OF d refl, of 150 100] in1 out1 l by blast
  have b: "hitIndex s1 150 10 = None"
    using C4_hover [OF d refl, of 150 10] out2 by blast
  have c: "mousemove 150 10 s1 = Some s1"
    using C4_hover [OF d refl, of 150 10] b hov by simp
  have e: "\<exists>s'. mousemove 150 100 s1 = Some s' \<and> hoverIndex s' = Some 1 \<and>
              redraws s' = Suc (redraws s1)"
    using C4_hover [OF d refl, of 150 100] a hov by simp
  show ?thesis using d in1 a b c e by blast
qed

subsection \<open>Window selection and the cache\<close>

lemma windowLabelOf_custom: "windowLabelOf ''custom'' = ''Custom''"
  by (simp add: windowLabelOf_def WINDOWS_def)

lemma getLinearTicks_zero: "getLinearTicks 0 = Some [0]"
  by (simp add: getLinearTicks_def)

text \<open>
  C10: when the start or the end input is empty, applyCustomRange returns at once: the
  whole state and page are as before, so no request is issued, the cache, the selection
  and the chart are unchanged and nothing is redrawn. (With both inputs filled, one
  request for that range is issued.)
\<close>

theorem C10_applyCustomRange_noop:
  "(startInput s = [] \<or> endInput s = [] \<longrightarrow>
      applyCustomRange s = s \<and>
      requests (applyCustomRange s) = requests s \<and>
      cache (applyCustomRange s) = cache s \<and>
      selected (applyCustomRange s) = selected s \<and>
      chartData (applyCustomRange s) = chartData s \<and>
      frame (applyCustomRange s) = frame s \<and>
      redraws (applyCustomRange s) = redraws s) \<and>
   (startInput s \<noteq> [] \<and> endInput s \<noteq> [] \<longrightarrow>
      requests (applyCustomRange s) = requests s @ [FetchRange (startInput s) (endInput s)])"
  by (simp add: applyCustomRange_def fetchUptime_def)

theorem C10_applyCustomRange_noop_witness:
  "startInput (pageLoaded (310, 200) [] ''2026-01-04T00:00'') = [] \<and>
   applyCustomRange (pageLoaded (310, 200) [] ''2026-01-04T00:00'')
     = pageLoaded (310, 200) [] ''2026-01-04T00:00'' \<and>
   requests (applyCustomRange (pageLoaded (310, 200) [] ''2026-01-04T00:00'')) = [] \<and>
   endInput (pageLoaded (310, 200) ''2025-12-28T00:00'' []) = [] \<and>
   applyCustomRange (pageLoaded (310, 200) ''2025-12-28T00:00'' [])
     = pageLoaded (310, 200) ''2025-12-28T00:00'' [] \<and>
   requests (applyCustomRange (pageLoaded (310, 200) ''2025-12-28T00:00'' ''2026-01-04T00:00''))
     = [FetchRange ''2025-12-28T00:00'' ''2026-01-04T00:00'']"
proof -
  have a: "startInput (pageLoaded (310, 200) [] ''2026-01-04T00:00'') = []"
    and b: "endInput (pageLoaded (310, 200) ''2025-12-28T00:00'' []) = []"
    and c: "startInput (pageLoaded (310, 200) ''2025-12-28T00:00'' ''2026-01-04T00:00'')
              = ''2025-12-28T00:00''"
    and d: "endInput (pageLoaded (310, 200) ''2025-12-28T00:00'' ''2026-01-04T00:00'')
              = ''2026-01-04T00:00''"
    and e: "requests (pageLoaded (310, 200) [] ''2026-01-04T00:00'') = []"
    and f: "requests (pageLoaded (310, 200) ''2025-12-28T00:00'' ''2026-01-04T00:00'') = []"
    by (simp_all add: pageLoaded_def)
  show ?thesis
    using C10_applyCustomRange_noop [of "pageLoaded (310, 200) [] ''2026-01-04T00:00''"]
      C10_applyCustomRange_noop [of "pageLoaded (310, 200) ''2025-12-28T00:00'' []"]
      C10_applyCustomRange_noop
        [of "pageLoaded (310, 200) ''2025-12-28T00:00'' ''2026-01-04T00:00''"]
      a b c d e f
    by simp
qed

text \<open>
  C7: selecting custom while no Dataset is cached for it shows the placeholder: both
  stats read "--", the header asks to pick a range, the chart data is empty and the
  frame drawn has the single gridline of the tick 0 and no bar; no request is issued.
\<close>

theorem C7_custom_placeholder:
  assumes "cache s ''custom'' = None"
  shows "\<exists>s'. setSelectedWindow ''custom'' s = Some s' \<and>
           requests s' = requests s \<and>
           uptimePct s' = Str ''--'' \<and> costUsd s' = Str ''--'' \<and>
           windowLabel s' = Str ''Custom'' \<and> windowRange s' = Str ''Pick a range'' \<and>
           chartData s' = [] \<and> barRects s' = [] \<and>
           frame s' = [ClearRect 0 0 (fst (chartRect s)) (snd (chartRect s)),
                       StrokeLine 0 (chartHeightOf s) (chartWidthOf s) (chartHeightOf s),
                       FillText (TokensLabel 0) (- 8) (chartHeightOf s)] \<and>
           redraws s' = Suc (redraws s) \<and>
           selected s' = ''custom'' \<and> cache s' = cache s \<and> rangeBoxVisible s'"
  using assms
  by (simp add: setSelectedWindow_def Let_def setActiveButton_def setRangeBoxVisible_def
      updateHeader_def windowLabelOf_custom drawChart_def maxTokensOf_def maxValueOf_def
      getLinearTicks_zero drawTick_def chartHeightOf_def chartWidthOf_def)

theorem C7_custom_placeholder_witness:
  "\<exists>s'. setSelectedWindow ''custom'' (pageLoaded (310, 200) ''a'' ''b'') = Some s' \<and>
        requests s' = [] \<and> uptimePct s' = Str ''--'' \<and> costUsd s' = Str ''--'' \<and>
        chartData s' = [] \<and> barRects s' = [] \<and>
        frame s' = [ClearRect 0 0 310 200, StrokeLine 0 142 234 142,
                    FillText (TokensLabel 0) (- 8) 142]"
proof -
  have a: "cache (pageLoaded (310, 200) ''a'' ''b'') ''custom'' = None"
    by (simp add: pageLoaded_def)
  have b: "requests (pageLoaded (310, 200) ''a'' ''b'') = [] \<and>
           chartRect (pageLoaded (310, 200) ''a'' ''b'') = (310, 200)"
    by (simp add: pageLoaded_def)
  show ?thesis
    using C7_custom_placeholder [OF a] b
    by (auto simp: chartHeightOf_def chartWidthOf_def)
qed

lemma showData_fields:
  "chartData (showData dat lab s) = bucketsOf dat"
  "granularity (showData dat lab s) = strOr (data_granularity dat) ''day''"
  "windowLabel (showData dat lab s) = Str lab"
  "uptimePct (showData dat lab s) = formatPct (percent_any_instance dat)"
  "selected (showData dat lab s) = selected s"
  "cache (showData dat lab s) = cache s"
  "buttons (showData dat lab s) = buttons s"
  "requests (showData dat lab s) = requests s"
  "redraws (showData dat lab s) = redraws s"
  "chartRect (showData dat lab s) = chartRect s"
  "hoverIndex (showData dat lab s) = hoverIndex s"
  by (simp_all add: showData_def updateHeader_def updateStats_def updateChartMeta_def Let_def
      split: option.splits)

lemma setSelectedWindow_cached:
  assumes "cache s k = Some dat"
  shows "setSelectedWindow k s =
           drawChart (showData dat (windowLabelOf k)
             (setRangeBoxVisible (k = ''custom'') (setActiveButton k (s\<lparr>selected := k\<rparr>))))"
  using assms by (simp add: setSelectedWindow_def Let_def setActiveButton_def)

lemma setSelectedWindow_miss:
  assumes "cache s k = None" "k \<noteq> ''custom''"
  shows "setSelectedWindow k s =
           Some (fetchUptime (FetchWindow k)
             (setRangeBoxVisible False (setActiveButton k (s\<lparr>selected := k\<rparr>))))"
  using assms by (simp add: setSelectedWindow_def Let_def setActiveButton_def)

lemma showData_more:
  "windowRange (showData dat lab s) =
     (case (window_start dat, window_end dat) of
        (Some a, Some b) \<Rightarrow>
          if a \<noteq> [] \<and> b \<noteq> [] then RangeText a b else Str ''Pick a range''
      | _ \<Rightarrow> Str ''Pick a range'')"
  "costUsd (showData dat lab s) =
     (case cost_total_usd dat of None \<Rightarrow> Str ''--''
      | Some v \<Rightarrow> CostText (cost_partial dat) v)"
  "chartTitle (showData dat lab s) = Str (''Tokens by '' @ strOr (data_granularity dat) ''day'')"
  "chartSubtitle (showData dat lab s) = Str ''Tokens per bucket.''"
  "rangeBoxVisible (showData dat lab s) = rangeBoxVisible s"
  "controlsShowRange (showData dat lab s) = controlsShowRange s"
  "startInput (showData dat lab s) = startInput s"
  "endInput (showData dat lab s) = endInput s"
  by (simp_all add: showData_def updateHeader_def updateStats_def updateChartMeta_def Let_def
      split: option.splits)

lemma getLinearTicks_value:
  "getLinearTicks m = Some (if m \<le> 0 then [0] else spec_ticks m (tickStep m))"
  by (simp add: getLinearTicks_nonpos getLinearTicks_pos)

lemma drawChart_frame:
  assumes "drawChart s = Some s'"
  shows "frame s' =
           [ClearRect 0 0 (fst (chartRect s)) (snd (chartRect s))]
           @ concat (map (drawTick (chartWidthOf s) (chartHeightOf s) (maxValueOf (chartData s)))
                       (if maxTokensOf (chartData s) \<le> 0 then [0]
                        else spec_ticks (maxTokensOf (chartData s))
                               (tickStep (maxTokensOf (chartData s)))))
           @ concat (map (drawBar s) (zip [0 ..< length (chartData s)] (chartData s)))"
  using assms unfolding drawChart_def Let_def getLinearTicks_value by auto

lemma drawTick_eq:
  "drawTick W H mv =
     (\<lambda>v. [StrokeLine 0 (H - v / mv * H) W (H - v / mv * H),
            FillText (TokensLabel v) (- 8) (H - v / mv * H)])"
  by (rule ext) (simp add: drawTick_def Let_def)

lemma barRectOf_eq:
  "barRectOf s =
     (\<lambda>ie. \<lparr>bar_index = fst ie,
             bar_x = 56 + real (fst ie)
                       * (barWidthOf (fst (chartRect s) - 56 - 20) (length (chartData s))
                          + barGapOf (fst (chartRect s) - 56 - 20) (length (chartData s))),
             bar_y = 24 + (snd (chartRect s) - 24 - 34
                           - entryTokens (snd ie) / maxValueOf (chartData s)
                             * (snd (chartRect s) - 24 - 34)),
             bar_width = barWidthOf (fst (chartRect s) - 56 - 20) (length (chartData s)),
             bar_height = entryTokens (snd ie) / maxValueOf (chartData s)
                            * (snd (chartRect s) - 24 - 34)\<rparr>)"
  by (rule ext)
    (simp only: barRectOf_def Let_def heightPx_def chartWidthOf_def chartHeightOf_def)

lemma drawBar_eq:
  "drawBar s =
     (\<lambda>ie.
        [FillRect
           (real (fst ie)
              * (barWidthOf (fst (chartRect s) - 56 - 20) (length (chartData s))
                 + barGapOf (fst (chartRect s) - 56 - 20) (length (chartData s))))
           (snd (chartRect s) - 24 - 34
              - entryTokens (snd ie) / maxValueOf (chartData s) * (snd (chartRect s) - 24 - 34))
           (barWidthOf (fst (chartRect s) - 56 - 20) (length (chartData s)))
           (entryTokens (snd ie) / maxValueOf (chartData s) * (snd (chartRect s) - 24 - 34))]
        @ (if fst ie mod (if length (chartData s) > 18
                          then nat \<lceil>real (length (chartData s)) / 12\<rceil> else 1) = 0
           then [FillText (BucketLabel (snd ie) (granularity s))
                   (real (fst ie)
                      * (barWidthOf (fst (chartRect s) - 56 - 20) (length (chartData s))
                         + barGapOf (fst (chartRect s) - 56 - 20) (length (chartData s)))
                    + barWidthOf (fst (chartRect s) - 56 - 20) (length (chartData s)) / 2)
                   (snd (chartRect s) - 24 - 34 + 18)]
           else [])
        @ (if hoverIndex s = Some (fst ie)
           then [FillText (TokensLabel (entryTokens (snd ie)))
                   (real (fst ie)
                      * (barWidthOf (fst (chartRect s) - 56 - 20) (length (chartData s))
                         + barGapOf (fst (chartRect s) - 56 - 20) (length (chartData s)))
                    + barWidthOf (fst (chartRect s) - 56 - 20) (length (chartData s)) / 2)
                   (snd (chartRect s) - 24 - 34
                      - entryTokens (snd ie) / maxValueOf (chartData s)
                        * (snd (chartRect s) - 24 - 34) - 6)]
           else []))"
  by (rule ext)
    (simp only: drawBar_def Let_def heightPx_def chartWidthOf_def chartHeightOf_def
      labelEvery_def)

text \<open>
  C6: selecting a window whose Dataset is cached issues no request, leaves the cache as
  it is and renders at once from the cached Dataset. The header label is that of the
  key and the range that of the Dataset; the uptime and cost stats, the chart title and
  subtitle, the chart data and the granularity are those of the Dataset. The chart is
  redrawn once: the frame is the cleared canvas, the gridline and value label of each
  tick of the cached maximum, then for each cached bucket its bar (scaled to the cached
  tokens), its category label where the thinning rule asks for one, and the token label
  when it is the hovered bar; one rectangle per cached bucket is stored for the hit test.
\<close>

theorem C6_cached_window:
  assumes "cache s k = Some dat"
  shows
    "let bs = (case token_buckets dat of None \<Rightarrow> [] | Some b \<Rightarrow> b);
         gran = (case data_granularity dat of None \<Rightarrow> ''day''
                 | Some g \<Rightarrow> if g = [] then ''day'' else g);
         n = length bs;
         W = fst (chartRect s) - 56 - 20;
         H = snd (chartRect s) - 24 - 34;
         bw = barWidthOf W n;
         bg = barGapOf W n;
         mt = maxTokensOf bs;
         mv = maxValueOf bs;
         ticks = (if mt \<le> 0 then [0] else spec_ticks mt (tickStep mt));
         every = (if n > 18 then nat \<lceil>real n / 12\<rceil> else 1)
     in \<exists>s'. setSelectedWindow k s = Some s' \<and>
          requests s' = requests s \<and> cache s' = cache s \<and> selected s' = k \<and>
          buttons s' = map (\<lambda>btn. (fst btn, fst btn = k)) (buttons s) \<and>
          rangeBoxVisible s' = (k = ''custom'') \<and> controlsShowRange s' = (k = ''custom'') \<and>
          windowLabel s' = Str (windowLabelOf k) \<and>
          windowRange s' =
            (case (window_start dat, window_end dat) of
               (Some a, Some b) \<Rightarrow>
                 if a \<noteq> [] \<and> b \<noteq> [] then RangeText a b else Str ''Pick a range''
             | _ \<Rightarrow> Str ''Pick a range'') \<and>
          uptimePct s' =
            (case percent_any_instance dat of None \<Rightarrow> Str ''--'' | Some p \<Rightarrow> PctText p) \<and>
          costUsd s' =
            (case cost_total_usd dat of None \<Rightarrow> Str ''--''
             | Some v \<Rightarrow> CostText (cost_partial dat) v) \<and>
          chartTitle s' = Str (''Tokens by '' @ gran) \<and>
          chartSubtitle s' = Str ''Tokens per bucket.'' \<and>
          chartData s' = bs \<and> granularity s' = gran \<and>
          hoverIndex s' = hoverIndex s \<and> chartRect s' = chartRect s \<and>
          startInput s' = startInput s \<and> endInput s' = endInput s \<and>
          redraws s' = Suc (redraws s) \<and>
          barRects s' =
            map (\<lambda>ie. \<lparr>bar_index = fst ie,
                        bar_x = 56 + real (fst ie) * (bw + bg),
                        bar_y = 24 + (H - entryTokens (snd ie) / mv * H),
                        bar_width = bw,
                        bar_height = entryTokens (snd ie) / mv * H\<rparr>)
              (zip [0 ..< n] bs) \<and>
          frame s' =
            [ClearRect 0 0 (fst (chartRect s)) (snd (chartRect s))]
            @ concat (map (\<lambda>v. [StrokeLine 0 (H - v / mv * H) W (H - v / mv * H),
                                 FillText (TokensLabel v) (- 8) (H - v / mv * H)]) ticks)
            @ concat (map (\<lambda>ie.
                [FillRect (real (fst ie) * (bw + bg)) (H - entryTokens (snd ie) / mv * H)
                   bw (entryTokens (snd ie) / mv * H)]
                @ (if fst ie mod every = 0
                   then [FillText (BucketLabel (snd ie) gran)
                           (real (fst ie) * (bw + bg) + bw / 2) (H + 18)]
                   else [])
                @ (if hoverIndex s = Some (fst ie)
                   then [FillText (TokensLabel (entryTokens (snd ie)))
                           (real (fst ie) * (bw + bg) + bw / 2)
                           (H - entryTokens (snd ie) / mv * H - 6)]
                   else []))
              (zip [0 ..< n] bs))"
proof -
  define u where "u = setRangeBoxVisible (k = ''custom'') (setActiveButton k (s\<lparr>selected := k\<rparr>))"
  define t where "t = showData dat (windowLabelOf k) u"
  have bs: "(case token_buckets dat of None \<Rightarrow> [] | Some b \<Rightarrow> b) = bucketsOf dat"
    by (simp add: bucketsOf_def)
  have gran: "(case data_granularity dat of None \<Rightarrow> ''day''
                 | Some g \<Rightarrow> if g = [] then ''day'' else g) = strOr (data_granularity dat) ''day''"
    by (simp add: strOr_def)
  have pct: "(case percent_any_instance dat of None \<Rightarrow> Str ''--'' | Some p \<Rightarrow> PctText p)
               = formatPct (percent_any_instance dat)"
    by (simp add: formatPct_def)
  have u: "requests u = requests s" "cache u = cache s" "selected u = k"
    "buttons u = map (\<lambda>btn. (fst btn, fst btn = k)) (buttons s)"
    "rangeBoxVisible u = (k = ''custom'')" "controlsShowRange u = (k = ''custom'')"
    "hoverIndex u = hoverIndex s" "chartRect u = chartRect s"
    "startInput u = startInput s" "endInput u = endInput s" "redraws u = redraws s"
    by (simp_all add: u_def setRangeBoxVisible_def setActiveButton_def)
  have t: "requests t = requests s" "cache t = cache s" "selected t = k"
    "buttons t = map (\<lambda>btn. (fst btn, fst btn = k)) (buttons s)"
    "rangeBoxVisible t = (k = ''custom'')" "controlsShowRange t = (k = ''custom'')"
    "hoverIndex t = hoverIndex s" "chartRect t = chartRect s"
    "startInput t = startInput s" "endInput t = endInput s" "redraws t = redraws s"
    "chartData t = bucketsOf dat" "granularity t = strOr (data_granularity dat) ''day''"
    "windowLabel t = Str (windowLabelOf k)"
    "uptimePct t = formatPct (percent_any_instance dat)"
    by (simp_all add: t_def showData_fields showData_more u)
  have t2: "windowRange t =
     (case (window_start dat, window_end dat) of
        (Some a, Some b) \<Rightarrow>
          if a \<noteq> [] \<and> b \<noteq> [] then RangeText a b else Str ''Pick a range''
      | _ \<Rightarrow> Str ''Pick a range'')"
    "costUsd t =
     (case cost_total_usd dat of None \<Rightarrow> Str ''--''
      | Some v \<Rightarrow> CostText (cost_partial dat) v)"
    "chartTitle t = Str (''Tokens by '' @ strOr (data_granularity dat) ''day'')"
    "chartSubtitle t = Str ''Tokens per bucket.''"
    unfolding t_def by (rule showData_more)+
  obtain s' where d: "drawChart t = Some s'" using drawChart_total [of t] by blast
  have e: "setSelectedWindow k s = Some s'"
    using setSelectedWindow_cached [OF assms] d by (simp add: t_def u_def)
  note f = drawChart_fields [OF d]
  have r: "barRects s' = map (barRectOf t) (zip [0 ..< length (chartData t)] (chartData t))"
    by (rule drawChart_barRects [OF d])
  note fr = drawChart_frame [OF d]
  show ?thesis
    unfolding Let_def bs gran pct
  proof (intro exI [of _ s'] conjI)
    show "setSelectedWindow k s = Some s'" by (rule e)
    show "barRects s' =
            map (\<lambda>ie. \<lparr>bar_index = fst ie,
                        bar_x = 56 + real (fst ie)
                          * (barWidthOf (fst (chartRect s) - 56 - 20) (length (bucketsOf dat))
                             + barGapOf (fst (chartRect s) - 56 - 20) (length (bucketsOf dat))),
                        bar_y = 24 + (snd (chartRect s) - 24 - 34
                                      - entryTokens (snd ie) / maxValueOf (bucketsOf dat)
                                        * (snd (chartRect s) - 24 - 34)),
                        bar_width =
                          barWidthOf (fst (chartRect s) - 56 - 20) (length (bucketsOf dat)),
                        bar_height = entryTokens (snd ie) / maxValueOf (bucketsOf dat)
                                       * (snd (chartRect s) - 24 - 34)\<rparr>)
              (zip [0 ..< length (bucketsOf dat)] (bucketsOf dat))"
      unfolding r barRectOf_eq t by (rule refl)
    show "frame s' =
            [ClearRect 0 0 (fst (chartRect s)) (snd (chartRect s))]
            @ concat (map (\<lambda>v. [StrokeLine 0
                                   (snd (chartRect s) - 24 - 34
                                      - v / maxValueOf (bucketsOf dat)
                                        * (snd (chartRect s) - 24 - 34))
                                   (fst (chartRect s) - 56 - 20)
                                   (snd (chartRect s) - 24 - 34
                                      - v / maxValueOf (bucketsOf dat)
                                        * (snd (chartRect s) - 24 - 34)),
                                 FillText (TokensLabel v) (- 8)
                                   (snd (chartRect s) - 24 - 34
                                      - v / maxValueOf (bucketsOf dat)
                                        * (snd (chartRect s) - 24 - 34))])
                (if maxTokensOf (bucketsOf dat) \<le> 0 then [0]
                 else spec_ticks (maxTokensOf (bucketsOf dat))
                        (tickStep (maxTokensOf (bucketsOf dat)))))
            @ concat (map (\<lambda>ie.
                [FillRect
                   (real (fst ie)
                      * (barWidthOf (fst (chartRect s) - 56 - 20) (length (bucketsOf dat))
                         + barGapOf (fst (chartRect s) - 56 - 20) (length (bucketsOf dat))))
                   (snd (chartRect s) - 24 - 34
                      - entryTokens (snd ie) / maxValueOf (bucketsOf dat)
                        * (snd (chartRect s) - 24 - 34))
                   (barWidthOf (fst (chartRect s) - 56 - 20) (length (bucketsOf dat)))
                   (entryTokens (snd ie) / maxValueOf (bucketsOf dat)
                      * (snd (chartRect s) - 24 - 34))]
                @ (if fst ie mod (if length (bucketsOf dat) > 18
                                  then nat \<lceil>real (length (bucketsOf dat)) / 12\<rceil> else 1) = 0
                   then [FillText (BucketLabel (snd ie) (strOr (data_granularity dat) ''day''))
                           (real (fst ie)
                              * (barWidthOf (fst (chartRect s) - 56 - 20)
                                   (length (bucketsOf dat))
                                 + barGapOf (fst (chartRect s) - 56 - 20)
                                     (length (bucketsOf dat)))
                            + barWidthOf (fst (chartRect s) - 56 - 20)
                                (length (bucketsOf dat)) / 2)
                           (snd (chartRect s) - 24 - 34 + 18)]
                   else [])
                @ (if hoverIndex s = Some (fst ie)
                   then [FillText (TokensLabel (entryTokens (snd ie)))
                           (real (fst ie)
                              * (barWidthOf (fst (chartRect s) - 56 - 20)
                                   (length (bucketsOf dat))
                                 + barGapOf (fst (chartRect s) - 56 - 20)
                                     (length (bucketsOf dat)))
                            + barWidthOf (fst (chartRect s) - 56 - 20)
                                (length (bucketsOf dat)) / 2)
                           (snd (chartRect s) - 24 - 34
                              - entryTokens (snd ie) / maxValueOf (bucketsOf dat)
                                * (snd (chartRect s) - 24 - 34) - 6)]
                   else []))
              (zip [0 ..< length (bucketsOf dat)] (bucketsOf dat)))"
      unfolding fr drawTick_eq drawBar_eq chartWidthOf_def chartHeightOf_def t by (rule refl)
  qed (simp_all add: f t t2)
qed

theorem C6_cached_window_witness:
  "\<exists>s'. setSelectedWindow ''1w''
          ((pageLoaded (310, 200) ''a'' ''b'')\<lparr>cache := [''1w'' \<mapsto> exampleData]\<rparr>) = Some s' \<and>
        requests s' = [] \<and> windowLabel s' = Str ''1 week'' \<and>
        windowRange s' = RangeText ''2026-01-01T00:00:00Z'' ''2026-01-04T00:00:00Z'' \<and>
        uptimePct s' = PctText 50 \<and> costUsd s' = Str ''--'' \<and>
        chartTitle s' = Str ''Tokens by day'' \<and>
        chartData s' = bucketsOf exampleData \<and> redraws s' = 1 \<and>
        map bar_height (barRects s') = [355 / 10, 142, 355 / 10] \<and>
        frame s' =
          [ClearRect 0 0 310 200,
           StrokeLine 0 142 234 142, FillText (TokensLabel 0) (- 8) 142,
           StrokeLine 0 (213 / 2) 234 (213 / 2), FillText (TokensLabel 100) (- 8) (213 / 2),
           StrokeLine 0 71 234 71, FillText (TokensLabel 200) (- 8) 71,
           StrokeLine 0 (71 / 2) 234 (71 / 2), FillText (TokensLabel 300) (- 8) (71 / 2),
           StrokeLine 0 0 234 0, FillText (TokensLabel 400) (- 8) 0,
           FillRect 0 (213 / 2) (214 / 3) (71 / 2),
           FillText (BucketLabel \<lparr>bucket_start = ''2026-01-01'', tokens = Some 100\<rparr> ''day'')
             (107 / 3) 160,
           FillRect (244 / 3) 0 (214 / 3) 142,
           FillText (BucketLabel \<lparr>bucket_start = ''2026-01-02'', tokens = Some 400\<rparr> ''day'')
             117 160,
           FillRect (488 / 3) (213 / 2) (214 / 3) (71 / 2),
           FillText (BucketLabel \<lparr>bucket_start = ''2026-01-03'', tokens = Some 100\<rparr> ''day'')
             (595 / 3) 160]"
proof -
  let ?s = "(pageLoaded (310, 200) ''a'' ''b'')\<lparr>cache := [''1w'' \<mapsto> exampleData]\<rparr>"
  let ?bs = "[\<lparr>bucket_start = ''2026-01-01'', tokens = Some 100\<rparr>,
              \<lparr>bucket_start = ''2026-01-02'', tokens = Some 400\<rparr>,
              \<lparr>bucket_start = ''2026-01-03'', tokens = Some 100\<rparr>]"
  have a: "cache ?s ''1w'' = Some exampleData" by simp
  have b: "requests ?s = []" "redraws ?s = 0" "chartRect ?s = (310, 200)"
    "hoverIndex ?s = None"
    by (simp_all add: pageLoaded_def)
  have c: "windowLabelOf ''1w'' = ''1 week''" by (simp add: windowLabelOf_def WINDOWS_def)
  have x: "token_buckets exampleData = Some ?bs" "data_granularity exampleData = Some ''day''"
    "window_start exampleData = Some ''2026-01-01T00:00:00Z''"
    "window_end exampleData = Some ''2026-01-04T00:00:00Z''"
    "percent_any_instance exampleData = Some 50" "cost_total_usd exampleData = None"
    by (simp_all add: exampleData_def)
  have bo: "bucketsOf exampleData = ?bs" by (simp add: bucketsOf_def x)
  have mt: "maxTokensOf ?bs = 400" by (simp add: maxTokensOf_def entryTokens_def)
  have mv: "maxValueOf ?bs = 400" by (simp add: maxValueOf_def mt)
  have "barPacking 234 3 = (214 / 3, 10)"
    unfolding packing_defs Let_def by simp
  then have p: "barWidthOf 234 (Suc (Suc (Suc 0))) = 214 / 3"
    "barGapOf 234 (Suc (Suc (Suc 0))) = 10"
    by (simp_all add: barWidthOf_def barGapOf_def numeral_3_eq_3)
  have "\<lfloor>log 10 (100::real)\<rfloor> = int 2"
    by (rule floor_log10_between) simp_all
  then have ts: "tickStep 400 = 100"
    by (simp add: tickStep_def tickMagnitude_def Let_def)
  have st: "spec_ticks 400 100 = [0, 100, 200, 300, 400]"
    by (simp add: spec_ticks_def upt_conv_Cons del: upt_Suc)
  have et: "entryTokens \<lparr>bucket_start = ''2026-01-01'', tokens = Some 100\<rparr> = 100"
    "entryTokens \<lparr>bucket_start = ''2026-01-02'', tokens = Some 400\<rparr> = 400"
    "entryTokens \<lparr>bucket_start = ''2026-01-03'', tokens = Some 100\<rparr> = 100"
    by (simp_all add: entryTokens_def)
  show ?thesis
    using C6_cached_window [OF a]
    unfolding Let_def x option.case prod.case b fst_conv snd_conv
    by (auto simp: c bo mt mv p ts st et upt_conv_Cons)
qed

text \<open>
  C5: when the request of selectWindow is rejected, the handler only replaces the text
  of the uptime stat by "Error: " followed by the error's message, whatever the state in
  which the rejection arrives. selectWindow issues a request exactly for a key that is
  neither cached nor custom; from the call to the rejection the cache, the chart data,
  the stored rectangles, the drawn frame, the header, the cost stat and the chart title
  are unchanged and nothing is redrawn.
\<close>

theorem C5_fetch_failure:
  "settle (FetchWindow k) (Inl message) t = Some (t\<lparr>uptimePct := Str (''Error: '' @ message)\<rparr>) \<and>
   (cache s k = None \<and> k \<noteq> ''custom'' \<longrightarrow>
      (\<exists>s1 s2. setSelectedWindow k s = Some s1 \<and>
         requests s1 = requests s @ [FetchWindow k] \<and>
         settle (FetchWindow k) (Inl message) s1 = Some s2 \<and>
         cache s2 = cache s \<and> chartData s2 = chartData s \<and> barRects s2 = barRects s \<and>
         frame s2 = frame s \<and> redraws s2 = redraws s \<and> granularity s2 = granularity s \<and>
         hoverIndex s2 = hoverIndex s \<and> windowLabel s2 = windowLabel s \<and>
         windowRange s2 = windowRange s \<and> costUsd s2 = costUsd s \<and>
         chartTitle s2 = chartTitle s \<and> chartSubtitle s2 = chartSubtitle s \<and>
         requests s2 = requests s1 \<and>
         uptimePct s2 = Str (''Error: '' @ message)))"
proof (intro conjI impI)
  show "settle (FetchWindow k) (Inl message) t
          = Some (t\<lparr>uptimePct := Str (''Error: '' @ message)\<rparr>)"
    by (simp add: settle_def fetchFailed_def)
next
  assume a: "cache s k = None \<and> k \<noteq> ''custom''"
  then have "setSelectedWindow k s =
           Some (fetchUptime (FetchWindow k)
             (setRangeBoxVisible False (setActiveButton k (s\<lparr>selected := k\<rparr>))))"
    using setSelectedWindow_miss [of s k] by simp
  then show "\<exists>s1 s2. setSelectedWindow k s = Some s1 \<and>
         requests s1 = requests s @ [FetchWindow k] \<and>
         settle (FetchWindow k) (Inl message) s1 = Some s2 \<and>
         cache s2 = cache s \<and> chartData s2 = chartData s \<and> barRects s2 = barRects s \<and>
         frame s2 = frame s \<and> redraws s2 = redraws s \<and> granularity s2 = granularity s \<and>
         hoverIndex s2 = hoverIndex s \<and> windowLabel s2 = windowLabel s \<and>
         windowRange s2 = windowRange s \<and> costUsd s2 = costUsd s \<and>
         chartTitle s2 = chartTitle s \<and> chartSubtitle s2 = chartSubtitle s \<and>
         requests s2 = requests s1 \<and>
         uptimePct s2 = Str (''Error: '' @ message)"
    by (simp add: settle_def fetchFailed_def fetchUptime_def setRangeBoxVisible_def
        setActiveButton_def)
qed

theorem C5_fetch_failure_witness:
  "\<exists>s1 s2. setSelectedWindow ''all'' (pageLoaded (310, 200) ''a'' ''b'') = Some s1 \<and>
     requests s1 = [FetchWindow ''all''] \<and>
     settle (FetchWindow ''all'') (Inl ''Failed to fetch uptime'') s1 = Some s2 \<and>
     cache s2 ''all'' = None \<and> chartData s2 = [] \<and> frame s2 = [] \<and> redraws s2 = 0 \<and>
     uptimePct s2 = Str ''Error: Failed to fetch uptime''"
proof -
  let ?s = "pageLoaded (310, 200) ''a'' ''b''"
  have a: "cache ?s ''all'' = None \<and> ''all'' \<noteq> ''custom''" by (simp add: pageLoaded_def)
  have b: "requests ?s = [] \<and> chartData ?s = [] \<and> frame ?s = [] \<and> redraws ?s = 0 \<and>
           cache ?s ''all'' = None"
    by (simp add: pageLoaded_def)
  from C5_fetch_failure [of "''all''" "''Failed to fetch uptime''" ?s ?s] a
  obtain s1 s2 where
    "setSelectedWindow ''all'' ?s = Some s1" "requests s1 = requests ?s @ [FetchWindow ''all'']"
    "settle (FetchWindow ''all'') (Inl ''Failed to fetch uptime'') s1 = Some s2"
    "cache s2 = cache ?s" "chartData s2 = chartData ?s" "frame s2 = frame ?s"
    "redraws s2 = redraws ?s" "uptimePct s2 = Str (''Error: '' @ ''Failed to fetch uptime'')"
    by blast
  then show ?thesis using b by (intro exI [of _ s1] exI [of _ s2]) simp
qed

subsection \<open>The active indicator\<close>






















end
